theory Spec2Isabelle
  imports Main
begin

section \<open>Python values\<close>

text \<open>
  The module \<^verbatim>\<open>sentinelhub/sentinelhub_batch.py\<close> moves decoded JSON around: job
  descriptions, tile payloads, request bodies. A decoded JSON value is \<open>None\<close>, a bool,
  an int, a str, a list or a dict with string keys. A dict is an association list in
  insertion order, as Python keeps it. Strings are lists of code points below 256;
  JSON numbers are integers (no float is modelled).
\<close>

datatype json =
    JNone
  | JBool bool
  | JInt int
  | JStr string
  | JList "json list"
  | JDict "(string \<times> json) list"

text \<open>The exceptions the module raises or lets through, with their messages.\<close>

datatype error =
    ValueError string
  | KeyError string
  | TypeError
  | AttributeError
  | IndexError
  | RuntimeError string
  | UnboundLocalError string
  | DownloadFailed string

text \<open>Truthiness, as \<^verbatim>\<open>if x:\<close>, \<^verbatim>\<open>x or y\<close> and \<^verbatim>\<open>not x\<close> read a value.\<close>

fun truthy :: "json \<Rightarrow> bool" where
  "truthy JNone = False"
| "truthy (JBool b) = b"
| "truthy (JInt i) = (i \<noteq> 0)"
| "truthy (JStr s) = (s \<noteq> [])"
| "truthy (JList xs) = (xs \<noteq> [])"
| "truthy (JDict kvs) = (kvs \<noteq> [])"

text \<open>\<^verbatim>\<open>d[k]\<close> with a string key: only a dict answers, and only for a key it has.\<close>

fun subscript :: "json \<Rightarrow> string \<Rightarrow> error + json" where
  "subscript (JDict kvs) k = (case map_of kvs k of None \<Rightarrow> Inl (KeyError k) | Some v \<Rightarrow> Inr v)"
| "subscript _ k = Inl TypeError"

text \<open>\<^verbatim>\<open>d.get(k, default)\<close>: a method of dicts only.\<close>

fun dict_get :: "json \<Rightarrow> string \<Rightarrow> json \<Rightarrow> error + json" where
  "dict_get (JDict kvs) k dflt = (case map_of kvs k of None \<Rightarrow> Inr dflt | Some v \<Rightarrow> Inr v)"
| "dict_get _ k dflt = Inl AttributeError"

text \<open>
  A dict display \<^verbatim>\<open>{'a': x, 'b': y, **kwargs}\<close>: every entry is stored in turn; a key
  stored again keeps its place and takes the new value.
\<close>

fun dict_set :: "string \<Rightarrow> json \<Rightarrow> (string \<times> json) list \<Rightarrow> (string \<times> json) list" where
  "dict_set k v [] = [(k, v)]"
| "dict_set k v (p # ps) = (if fst p = k then (k, v) # ps else p # dict_set k v ps)"

definition dict_display :: "(string \<times> json) list \<Rightarrow> (string \<times> json) list" where
  "dict_display entries = foldl (\<lambda>d (k, v). dict_set k v d) [] entries"

subsection \<open>Formatting\<close>

text \<open>\<^verbatim>\<open>str(i)\<close> of an int: its decimal digits.\<close>

definition digit_char :: "nat \<Rightarrow> char" where
  "digit_char d = char_of (48 + d)"

function show_nat :: "nat \<Rightarrow> string" where
  "show_nat n = (if n < 10 then [digit_char n] else show_nat (n div 10) @ [digit_char (n mod 10)])"
  by pat_completeness auto
termination
  by (relation "measure id") auto

declare show_nat.simps [simp del]

definition show_int :: "int \<Rightarrow> string" where
  "show_int i = (if i < 0 then CHR ''-'' # show_nat (nat (- i)) else show_nat (nat i))"

text \<open>
  \<^verbatim>\<open>repr\<close> of a str: single quotes unless the text has a single quote and no double
  quote; the quote and the backslash escaped, tab, newline and return by letter, every
  other unprintable code point as \<^verbatim>\<open>\xhh\<close>.
\<close>

definition hex_char :: "nat \<Rightarrow> char" where
  "hex_char d = (if d < 10 then char_of (48 + d) else char_of (87 + d))"

definition printable :: "char \<Rightarrow> bool" where
  "printable c = (let n = (of_char c :: nat) in
     (32 \<le> n \<and> n < 127) \<or> (161 \<le> n \<and> n \<noteq> 173))"

definition repr_char :: "char \<Rightarrow> char \<Rightarrow> string" where
  "repr_char q c =
     (if c = q \<or> c = CHR 0x5C then [CHR 0x5C, c]
      else if c = CHR 0x09 then [CHR 0x5C, CHR ''t'']
      else if c = CHR 0x0A then [CHR 0x5C, CHR ''n'']
      else if c = CHR 0x0D then [CHR 0x5C, CHR ''r'']
      else if printable c then [c]
      else [CHR 0x5C, CHR ''x'', hex_char (of_char c div 16), hex_char (of_char c mod 16)])"

definition repr_str :: "string \<Rightarrow> string" where
  "repr_str s =
     (let q = (if CHR 0x27 \<in> set s \<and> CHR 0x22 \<notin> set s then CHR 0x22 else CHR 0x27)
      in q # concat (map (repr_char q) s) @ [q])"

definition join :: "string \<Rightarrow> string list \<Rightarrow> string" where
  "join sep xs = (case xs of [] \<Rightarrow> [] | y # ys \<Rightarrow> y @ concat (map (\<lambda>z. sep @ z) ys))"

fun py_repr :: "json \<Rightarrow> string" where
  "py_repr JNone = ''None''"
| "py_repr (JBool b) = (if b then ''True'' else ''False'')"
| "py_repr (JInt i) = show_int i"
| "py_repr (JStr s) = repr_str s"
| "py_repr (JList xs) = ''['' @ join '', '' (map py_repr xs) @ '']''"
| "py_repr (JDict kvs) =
     ''{'' @ join '', '' (map (\<lambda>(k, v). repr_str k @ '': '' @ py_repr v) kvs) @ ''}''"

text \<open>What an f-string field \<^verbatim>\<open>{x}\<close> puts into the text: \<^verbatim>\<open>str(x)\<close>.\<close>

fun py_str :: "json \<Rightarrow> string" where
  "py_str (JStr s) = s"
| "py_str j = py_repr j"

section \<open>Collaborators outside the module\<close>

text \<open>
  \<^verbatim>\<open>SHConfig\<close>, \<^verbatim>\<open>SentinelHubDownloadClient\<close>, \<^verbatim>\<open>SentinelHubFeatureIterator\<close> and
  \<^verbatim>\<open>remove_undefined\<close> are imported from other modules. The configuration is read for
  its base URL only. A client is the configuration it was built with. What the service
  answers is not the module's business: the environment \<open>E\<close> carries the default
  configuration \<^verbatim>\<open>SHConfig()\<close>, the client's \<^verbatim>\<open>get_json\<close> and the feature iterator's
  \<^verbatim>\<open>__next__\<close> as functions of an abstract service state \<open>'w\<close>. Every call made through
  them, every sleep, log record and progress-bar call is appended to a trace.
\<close>

record sh_config =
  sh_base_url :: string

datatype client = SentinelHubDownloadClient "sh_config option"

datatype request_type = GET | POST | PUT | DELETE

record request =
  url :: string
  post_values :: "json option"
  request_type :: "request_type option"
  use_session :: bool

record feature_iterator =
  it_client :: client
  it_url :: string
  it_params :: "(string \<times> json) list"
  exception_message :: string

datatype bar_call = BarOpen json | BarUpdate int | BarSetTotal int | BarRefresh | BarClose

datatype event =
    Request client request
  | NextFeature feature_iterator
  | Sleep int
  | LogInfo string "json list"
  | Tqdm string bar_call

record 'w world =
  server :: 'w
  trace :: "event list"

record ('w, 'i) env =
  SHConfig :: sh_config
  get_json :: "client \<Rightarrow> request \<Rightarrow> 'w \<Rightarrow> (error + json) \<times> 'w"
  new_features :: "feature_iterator \<Rightarrow> 'i"
  next_feature :: "'i \<Rightarrow> 'w \<Rightarrow> (error + (json \<times> 'i) option) \<times> 'w"

text \<open>\<^verbatim>\<open>client.get_json(url, post_values=..., request_type=..., use_session=...)\<close>.\<close>

definition client_get_json ::
  "('w, 'i) env \<Rightarrow> client \<Rightarrow> request \<Rightarrow> 'w world \<Rightarrow> (error + json) \<times> 'w world" where
  "client_get_json E c r w =
     (case get_json E c r (server w) of
        (res, s) \<Rightarrow> (res, \<lparr>server = s, trace = trace w @ [Request c r]\<rparr>))"

text \<open>
  Modelled from the spec: the verb of a \<^verbatim>\<open>get_json\<close> call that passes no
  \<^verbatim>\<open>request_type\<close>; the client that chooses it is not in this module. The spec has
  POST for create and for actions, PUT for update, DELETE for delete and GET otherwise:
  a call that names its verb uses it, one that only carries a body is a POST, one that
  carries nothing is a GET.
\<close>

definition effective_verb :: "request \<Rightarrow> request_type" where
  "effective_verb r =
     (case request_type r of
        Some v \<Rightarrow> v
      | None \<Rightarrow> (if post_values r = None then GET else POST))"

text \<open>\<^verbatim>\<open>next(it)\<close> on a feature iterator: an item, the end, or an exception.\<close>

definition iter_next ::
  "('w, 'i) env \<Rightarrow> feature_iterator \<times> 'i \<Rightarrow> 'w world
     \<Rightarrow> (error + (json \<times> (feature_iterator \<times> 'i)) option) \<times> 'w world" where
  "iter_next E it w =
     (case next_feature E (snd it) (server w) of
        (res, s) \<Rightarrow>
          (case res of
             Inl e \<Rightarrow> Inl e
           | Inr None \<Rightarrow> Inr None
           | Inr (Some (x, i)) \<Rightarrow> Inr (Some (x, (fst it, i))),
           \<lparr>server = s, trace = trace w @ [NextFeature (fst it)]\<rparr>))"

definition SentinelHubFeatureIterator ::
  "('w, 'i) env \<Rightarrow> feature_iterator \<Rightarrow> feature_iterator \<times> 'i" where
  "SentinelHubFeatureIterator E a = (a, new_features E a)"

text \<open>
  Modelled from the spec: \<^verbatim>\<open>remove_undefined\<close> of \<^verbatim>\<open>sh_utils\<close>, which is not in
  this module. The spec: payload helpers drop any parameter left unset; unset fields
  are omitted entirely, never sent as null. Unset is \<open>None\<close>.
\<close>

definition remove_undefined :: "(string \<times> json) list \<Rightarrow> (string \<times> json) list" where
  "remove_undefined payload = filter (\<lambda>(name, v). v \<noteq> JNone) payload"

text \<open>\<^verbatim>\<open>time.sleep\<close> refuses a negative length; \<^verbatim>\<open>LOGGER.info\<close> never raises.\<close>

definition sleep :: "int \<Rightarrow> 'w world \<Rightarrow> (error + unit) \<times> 'w world" where
  "sleep t w =
     (if t < 0 then (Inl (ValueError ''sleep length must be non-negative''), w)
      else (Inr (), w\<lparr>trace := trace w @ [Sleep t]\<rparr>))"

definition emit :: "event \<Rightarrow> 'w world \<Rightarrow> 'w world" where
  "emit ev w = w\<lparr>trace := trace w @ [ev]\<rparr>"

section \<open>The class SentinelHubBatch\<close>

record batch =
  request_id :: json
  config :: sh_config
  request_info :: json
  client :: client

text \<open>\<^verbatim>\<open>config or SHConfig()\<close>: a configuration object is always truthy.\<close>

definition config_or_default :: "('w, 'i) env \<Rightarrow> sh_config option \<Rightarrow> sh_config" where
  "config_or_default E cfg = (case cfg of Some c \<Rightarrow> c | None \<Rightarrow> SHConfig E)"

definition init ::
  "('w, 'i) env \<Rightarrow> json \<Rightarrow> json \<Rightarrow> sh_config option \<Rightarrow> error + batch" where
  "init E rid rinfo cfg =
     (if \<not> (truthy rid \<or> truthy rinfo)
      then Inl (ValueError ''One of the parameters request_id and request_info has to be given'')
      else
        (case (if truthy rid then Inr rid else subscript rinfo ''id'') of
           Inl e \<Rightarrow> Inl e
         | Inr i \<Rightarrow>
             Inr \<lparr>request_id = i,
                  config = config_or_default E cfg,
                  request_info = rinfo,
                  client = SentinelHubDownloadClient (Some (config_or_default E cfg))\<rparr>))"

subsection \<open>URLs\<close>

definition get_batch_url :: "('w, 'i) env \<Rightarrow> sh_config option \<Rightarrow> string" where
  "get_batch_url E cfg = sh_base_url (config_or_default E cfg) @ ''/api/v1/batch''"

definition get_process_url :: "('w, 'i) env \<Rightarrow> sh_config option \<Rightarrow> json \<Rightarrow> string" where
  "get_process_url E cfg rid =
     (let u = get_batch_url E cfg @ ''/process''
      in if truthy rid then u @ ''/'' @ py_str rid else u)"

definition get_tiling_grids_url :: "('w, 'i) env \<Rightarrow> sh_config option \<Rightarrow> string" where
  "get_tiling_grids_url E cfg = get_batch_url E cfg @ ''/tilinggrids''"

definition get_collections_url :: "('w, 'i) env \<Rightarrow> sh_config option \<Rightarrow> string" where
  "get_collections_url E cfg = get_batch_url E cfg @ ''/collections''"

definition get_tiles_url :: "('w, 'i) env \<Rightarrow> batch \<Rightarrow> json \<Rightarrow> string" where
  "get_tiles_url E h tile_id =
     (let process_url = get_process_url E (Some (config h)) (request_id h);
          u = process_url @ ''/tiles''
      in if truthy tile_id then u @ ''/'' @ py_str tile_id else u)"

subsection \<open>The cached description\<close>

definition update_info ::
  "('w, 'i) env \<Rightarrow> batch \<Rightarrow> 'w world \<Rightarrow> (error + unit) \<times> batch \<times> 'w world" where
  "update_info E h w =
     (let u = get_process_url E (Some (config h)) (request_id h)
      in case client_get_json E (client h)
                \<lparr>url = u, post_values = None, request_type = None, use_session = True\<rparr> w of
           (Inl e, w1) \<Rightarrow> (Inl e, h, w1)
         | (Inr j, w1) \<Rightarrow> (Inr (), h\<lparr>request_info := j\<rparr>, w1))"

text \<open>The property \<^verbatim>\<open>info\<close>: loads the description only if none is held.\<close>

definition info ::
  "('w, 'i) env \<Rightarrow> batch \<Rightarrow> 'w world \<Rightarrow> (error + json) \<times> batch \<times> 'w world" where
  "info E h w =
     (if request_info h = JNone
      then (case update_info E h w of
              (Inl e, h1, w1) \<Rightarrow> (Inl e, h1, w1)
            | (Inr u, h1, w1) \<Rightarrow> (Inr (request_info h1), h1, w1))
      else (Inr (request_info h), h, w))"

definition and_then :: "error + 'a \<Rightarrow> ('a \<Rightarrow> error + 'b) \<Rightarrow> error + 'b" where
  "and_then r f = (case r of Inl e \<Rightarrow> Inl e | Inr x \<Rightarrow> f x)"

definition evalscript ::
  "('w, 'i) env \<Rightarrow> batch \<Rightarrow> 'w world \<Rightarrow> (error + json) \<times> batch \<times> 'w world" where
  "evalscript E h w =
     (case info E h w of
        (Inl e, h1, w1) \<Rightarrow> (Inl e, h1, w1)
      | (Inr i, h1, w1) \<Rightarrow>
          (and_then (subscript i ''processRequest'') (\<lambda>p. subscript p ''evalscript''), h1, w1))"

text \<open>
  The geometry types are outside the module: \<^verbatim>\<open>CRS(code)\<close>, \<^verbatim>\<open>BBox(bbox, crs)\<close> and
  \<^verbatim>\<open>Geometry(geometry, crs)\<close> stand for themselves, as the values they are built from.
\<close>

datatype crs = CRS string

datatype bounds = BBox json crs | Geometry json crs

text \<open>\<^verbatim>\<open>x.rsplit('/', 1)[-1]\<close>: a method of str; what follows the last slash.\<close>

fun rsplit_last :: "json \<Rightarrow> error + string" where
  "rsplit_last (JStr s) = Inr (rev (takeWhile (\<lambda>c. c \<noteq> CHR ''/'') (rev s)))"
| "rsplit_last _ = Inl AttributeError"

definition parse_bounds_payload ::
  "('w, 'i) env \<Rightarrow> batch \<Rightarrow> 'w world \<Rightarrow> (error + json \<times> json \<times> crs) \<times> batch \<times> 'w world" where
  "parse_bounds_payload E h w =
     (case info E h w of
        (Inl e, h1, w1) \<Rightarrow> (Inl e, h1, w1)
      | (Inr i, h1, w1) \<Rightarrow>
          (and_then (subscript i ''processRequest'') (\<lambda>p.
           and_then (subscript p ''input'') (\<lambda>inp.
           and_then (subscript inp ''bounds'') (\<lambda>bounds_definition.
           and_then (subscript bounds_definition ''properties'') (\<lambda>props.
           and_then (subscript props ''crs'') (\<lambda>c.
           and_then (rsplit_last c) (\<lambda>code.
           and_then (dict_get bounds_definition ''bbox'' JNone) (\<lambda>bb.
           and_then (dict_get bounds_definition ''geometry'' JNone) (\<lambda>g.
             Inr (bb, g, CRS code))))))))), h1, w1))"

definition bbox ::
  "('w, 'i) env \<Rightarrow> batch \<Rightarrow> 'w world \<Rightarrow> (error + bounds) \<times> batch \<times> 'w world" where
  "bbox E h w =
     (case parse_bounds_payload E h w of
        (Inl e, h1, w1) \<Rightarrow> (Inl e, h1, w1)
      | (Inr (bb, g, c), h1, w1) \<Rightarrow>
          (if bb = JNone
           then Inl (ValueError ''Bounding box is not defined for this batch request'')
           else Inr (BBox bb c), h1, w1))"

definition geometry ::
  "('w, 'i) env \<Rightarrow> batch \<Rightarrow> 'w world \<Rightarrow> (error + bounds) \<times> batch \<times> 'w world" where
  "geometry E h w =
     (case parse_bounds_payload E h w of
        (Inl e, h1, w1) \<Rightarrow> (Inl e, h1, w1)
      | (Inr (bb, g, c), h1, w1) \<Rightarrow>
          (if g = JNone
           then Inl (ValueError ''Geometry is not defined for this batch request'')
           else Inr (Geometry g c), h1, w1))"

text \<open>
  \<^verbatim>\<open>__repr__\<close>. \<^verbatim>\<open>name in self.info\<close> is a key test on a dict, a substring test on a
  str, a search on a list and a TypeError on anything else; \<^verbatim>\<open>self.info[name]\<close> answers
  on a dict only. After the first access the description is held, so the later
  accesses of the comprehension load nothing.
\<close>

definition REPR_PARAM_NAMES :: "string list" where
  "REPR_PARAM_NAMES = [''id'', ''description'', ''bucketName'', ''created'', ''status'',
     ''userAction'', ''valueEstimate'', ''tileCount'']"

definition substring :: "string \<Rightarrow> string \<Rightarrow> bool" where
  "substring t s = list_ex (\<lambda>i. take (length t) (drop i s) = t) [0 ..< Suc (length s)]"

fun repr_params :: "json \<Rightarrow> error + (string \<times> json) list" where
  "repr_params (JDict kvs) =
     Inr (concat (map (\<lambda>name. case map_of kvs name of None \<Rightarrow> [] | Some v \<Rightarrow> [(name, v)])
            REPR_PARAM_NAMES))"
| "repr_params (JStr s) =
     (if list_ex (\<lambda>name. substring name s) REPR_PARAM_NAMES then Inl TypeError else Inr [])"
| "repr_params (JList xs) =
     (if list_ex (\<lambda>name. JStr name \<in> set xs) REPR_PARAM_NAMES then Inl TypeError else Inr [])"
| "repr_params _ = Inl TypeError"

definition batch_repr ::
  "('w, 'i) env \<Rightarrow> batch \<Rightarrow> 'w world \<Rightarrow> (error + string) \<times> batch \<times> 'w world" where
  "batch_repr E h w =
     (case info E h w of
        (Inl e, h1, w1) \<Rightarrow> (Inl e, h1, w1)
      | (Inr i, h1, w1) \<Rightarrow>
          (and_then (repr_params i) (\<lambda>ps.
             Inr (''SentinelHubBatch({'' @ [CHR 0x0A] @ ''  ''
                  @ join ([CHR 0x0A] @ ''  '') (map (\<lambda>(name, v). name @ '': '' @ py_str v) ps)
                  @ [CHR 0x0A] @ ''  ...'' @ [CHR 0x0A] @ ''})'')), h1, w1))"

subsection \<open>Requests on a job\<close>

definition update ::
  "('w, 'i) env \<Rightarrow> json \<Rightarrow> json \<Rightarrow> (string \<times> json) list \<Rightarrow> batch \<Rightarrow> 'w world
     \<Rightarrow> (error + unit) \<times> batch \<times> 'w world" where
  "update E outp description kwargs h w =
     (let payload = remove_undefined
            (dict_display ([(''output'', outp), (''description'', description)] @ kwargs));
          u = get_process_url E (Some (config h)) (request_id h)
      in case client_get_json E (client h)
                \<lparr>url = u, post_values = Some (JDict payload), request_type = Some PUT,
                 use_session = True\<rparr> w of
           (Inl e, w1) \<Rightarrow> (Inl e, h, w1)
         | (Inr j, w1) \<Rightarrow> (Inr (), h\<lparr>request_info := j\<rparr>, w1))"

definition delete ::
  "('w, 'i) env \<Rightarrow> batch \<Rightarrow> 'w world \<Rightarrow> (error + json) \<times> 'w world" where
  "delete E h w =
     (let u = get_process_url E (Some (config h)) (request_id h)
      in client_get_json E (client h)
           \<lparr>url = u, post_values = None, request_type = Some DELETE, use_session = True\<rparr> w)"

definition call_job ::
  "('w, 'i) env \<Rightarrow> string \<Rightarrow> batch \<Rightarrow> 'w world \<Rightarrow> (error + json) \<times> 'w world" where
  "call_job E endpoint_name h w =
     (let process_url = get_process_url E (Some (config h)) (request_id h);
          u = process_url @ ''/'' @ endpoint_name
      in client_get_json E (client h)
           \<lparr>url = u, post_values = None, request_type = Some POST, use_session = True\<rparr> w)"

definition start_analysis ::
  "('w, 'i) env \<Rightarrow> batch \<Rightarrow> 'w world \<Rightarrow> (error + json) \<times> 'w world" where
  "start_analysis E h w = call_job E ''analyse'' h w"

definition start_job ::
  "('w, 'i) env \<Rightarrow> batch \<Rightarrow> 'w world \<Rightarrow> (error + json) \<times> 'w world" where
  "start_job E h w = call_job E ''start'' h w"

definition cancel_job ::
  "('w, 'i) env \<Rightarrow> batch \<Rightarrow> 'w world \<Rightarrow> (error + json) \<times> 'w world" where
  "cancel_job E h w = call_job E ''cancel'' h w"

definition restart_job ::
  "('w, 'i) env \<Rightarrow> batch \<Rightarrow> 'w world \<Rightarrow> (error + json) \<times> 'w world" where
  "restart_job E h w = call_job E ''restartpartial'' h w"

text \<open>
  \<^verbatim>\<open>raise_for_status\<close> takes one status or a list of them (\<^verbatim>\<open>str or list(str)\<close>).
  \<^verbatim>\<open>batch_status in status\<close> compares with \<^verbatim>\<open>==\<close>: only a str equals a str.
\<close>

datatype status_arg = OneStatus string | Statuses "string list"

definition py_in :: "json \<Rightarrow> string list \<Rightarrow> bool" where
  "py_in j xs = (j \<in> JStr ` set xs)"

definition raise_for_status ::
  "('w, 'i) env \<Rightarrow> status_arg \<Rightarrow> batch \<Rightarrow> 'w world \<Rightarrow> (error + unit) \<times> batch \<times> 'w world" where
  "raise_for_status E status h w =
     (let statuses = (case status of OneStatus s \<Rightarrow> [s] | Statuses xs \<Rightarrow> xs)
      in case info E h w of
           (Inl e, h1, w1) \<Rightarrow> (Inl e, h1, w1)
         | (Inr i, h1, w1) \<Rightarrow>
             (case subscript i ''status'' of
                Inl e \<Rightarrow> (Inl e, h1, w1)
              | Inr batch_status \<Rightarrow>
                  if py_in batch_status statuses
                  then (case info E h1 w1 of
                          (Inl e, h2, w2) \<Rightarrow> (Inl e, h2, w2)
                        | (Inr i2, h2, w2) \<Rightarrow>
                            (case dict_get i2 ''error'' (JStr []) of
                               Inl e \<Rightarrow> (Inl e, h2, w2)
                             | Inr error_message \<Rightarrow>
                                 (let formatted_error_message =
                                        (if truthy error_message
                                         then '' and error message: '' @ [CHR 0x22]
                                              @ py_str error_message @ [CHR 0x22]
                                         else [])
                                  in (Inl (RuntimeError
                                        (''Raised for batch request '' @ py_str (request_id h2)
                                         @ '' with status '' @ py_str batch_status
                                         @ formatted_error_message)), h2, w2))))
                  else (Inr (), h1, w1)))"

subsection \<open>Tiles\<close>

definition iter_tiles ::
  "('w, 'i) env \<Rightarrow> json \<Rightarrow> (string \<times> json) list \<Rightarrow> batch \<Rightarrow> feature_iterator \<times> 'i" where
  "iter_tiles E status kwargs h =
     SentinelHubFeatureIterator E
       \<lparr>it_client = client h,
        it_url = get_tiles_url E h JNone,
        it_params = dict_display ((''status'', status) # kwargs),
        exception_message =
          ''No tiles found, please run analysis on batch request before calling this method''\<rparr>"

definition get_tile ::
  "('w, 'i) env \<Rightarrow> json \<Rightarrow> batch \<Rightarrow> 'w world \<Rightarrow> (error + json) \<times> 'w world" where
  "get_tile E tile_id h w =
     (let u = get_tiles_url E h tile_id
      in client_get_json E (client h)
           \<lparr>url = u, post_values = None, request_type = None, use_session = True\<rparr> w)"

definition reprocess_tile ::
  "('w, 'i) env \<Rightarrow> json \<Rightarrow> batch \<Rightarrow> 'w world \<Rightarrow> (error + unit) \<times> 'w world" where
  "reprocess_tile E tile_id h w =
     (case call_job E (''tiles/'' @ py_str tile_id @ ''/restart'') h w of
        (Inl e, w1) \<Rightarrow> (Inl e, w1)
      | (Inr j, w1) \<Rightarrow> (Inr (), w1))"

subsection \<open>Payload helpers\<close>

text \<open>
  \<^verbatim>\<open>buffer\<close> is a pair of ints or \<open>None\<close>; \<^verbatim>\<open>if buffer:\<close> holds for every pair.
\<close>

definition tiling_grid ::
  "json \<Rightarrow> json \<Rightarrow> (json \<times> json) option \<Rightarrow> (string \<times> json) list \<Rightarrow> (string \<times> json) list" where
  "tiling_grid grid_id resolution buffer kwargs =
     (let payload = dict_display ([(''id'', grid_id), (''resolution'', resolution)] @ kwargs)
      in case buffer of
           Some (bx, by) \<Rightarrow> dict_display (payload @ [(''bufferX'', bx), (''bufferY'', by)])
         | None \<Rightarrow> payload)"

record output_args =
  default_tile_path :: json
  overwrite :: json
  skip_existing :: json
  cog_output :: json
  cog_parameters :: json
  create_collection_flag :: json
  collection_id :: json
  responses :: json

definition batch_output :: "output_args \<Rightarrow> (string \<times> json) list \<Rightarrow> (string \<times> json) list" where
  "batch_output a kwargs =
     remove_undefined (dict_display
       ([(''defaultTilePath'', default_tile_path a),
         (''overwrite'', overwrite a),
         (''skipExisting'', skip_existing a),
         (''cogOutput'', cog_output a),
         (''cogParameters'', cog_parameters a),
         (''createCollection'', create_collection_flag a),
         (''collectionId'', collection_id a),
         (''responses'', responses a)] @ kwargs))"

subsection \<open>Creating and listing jobs\<close>

text \<open>
  \<^verbatim>\<open>create\<close> takes a \<^verbatim>\<open>SentinelHubRequest\<close>, of which it reads the \<^verbatim>\<open>post_values\<close> of
  the first entry of \<^verbatim>\<open>download_list\<close>, or any other value, which must be a dict.
\<close>

datatype request_arg = SentinelHubRequest "json list" | Plain json

record create_args =
  ca_tiling_grid :: json
  ca_output :: json
  ca_bucket_name :: json
  ca_description :: json
  ca_config :: "sh_config option"
  ca_kwargs :: "(string \<times> json) list"

definition create ::
  "('w, 'i) env \<Rightarrow> request_arg \<Rightarrow> create_args \<Rightarrow> 'w world
     \<Rightarrow> (error + batch) \<times> 'w world" where
  "create E sentinelhub_request a w =
     (case (case sentinelhub_request of
              SentinelHubRequest download_list \<Rightarrow>
                (case download_list of [] \<Rightarrow> Inl IndexError | pv # rest \<Rightarrow> Inr pv)
            | Plain j \<Rightarrow> Inr j) of
        Inl e \<Rightarrow> (Inl e, w)
      | Inr req \<Rightarrow>
          (case req of
             JDict kvs \<Rightarrow>
               (let payload = remove_undefined (dict_display
                      ([(''processRequest'', req),
                        (''tilingGrid'', ca_tiling_grid a),
                        (''output'', ca_output a),
                        (''bucketName'', ca_bucket_name a),
                        (''description'', ca_description a)] @ ca_kwargs a));
                    u = get_process_url E (ca_config a) JNone;
                    c = SentinelHubDownloadClient (ca_config a)
                in case client_get_json E c
                          \<lparr>url = u, post_values = Some (JDict payload), request_type = None,
                           use_session = True\<rparr> w of
                     (Inl e, w1) \<Rightarrow> (Inl e, w1)
                   | (Inr rinfo, w1) \<Rightarrow>
                       (case init E JNone rinfo (ca_config a) of
                          Inl e \<Rightarrow> (Inl e, w1)
                        | Inr h \<Rightarrow> (Inr h, w1)))
           | _ \<Rightarrow>
               (Inl (ValueError
                  (''Parameter sentinelhub_request should be an instance of SentinelHubRequest or a ''
                   @ ''dictionary with a request payload'')), w)))"

definition iter_tiling_grids ::
  "('w, 'i) env \<Rightarrow> sh_config option \<Rightarrow> (string \<times> json) list \<Rightarrow> feature_iterator \<times> 'i" where
  "iter_tiling_grids E cfg kwargs =
     (let u = get_tiling_grids_url E cfg
      in SentinelHubFeatureIterator E
           \<lparr>it_client = SentinelHubDownloadClient cfg,
            it_url = u,
            it_params = remove_undefined (dict_display kwargs),
            exception_message = ''Failed to obtain information about available tiling grids''\<rparr>)"

definition get_tiling_grid ::
  "('w, 'i) env \<Rightarrow> json \<Rightarrow> sh_config option \<Rightarrow> 'w world \<Rightarrow> (error + json) \<times> 'w world" where
  "get_tiling_grid E grid_id cfg w =
     (let u = get_tiling_grids_url E cfg @ ''/'' @ py_str grid_id;
          c = SentinelHubDownloadClient cfg
      in client_get_json E c
           \<lparr>url = u, post_values = None, request_type = None, use_session = True\<rparr> w)"

text \<open>
  \<^verbatim>\<open>iter_requests\<close> is a generator: it holds the feature iterator and the configuration,
  and each \<^verbatim>\<open>next\<close> wraps the next job description into a handle. \<open>None\<close> is
  \<^verbatim>\<open>StopIteration\<close>.
\<close>

definition iter_requests ::
  "('w, 'i) env \<Rightarrow> json \<Rightarrow> json \<Rightarrow> json \<Rightarrow> sh_config option \<Rightarrow> (string \<times> json) list
     \<Rightarrow> (feature_iterator \<times> 'i) \<times> sh_config option" where
  "iter_requests E user_id search sorting cfg kwargs =
     (let u = get_process_url E cfg JNone;
          params = remove_undefined (dict_display
            ([(''userid'', user_id), (''search'', search), (''sort'', sorting)] @ kwargs))
      in (SentinelHubFeatureIterator E
            \<lparr>it_client = SentinelHubDownloadClient cfg,
             it_url = u,
             it_params = params,
             exception_message = ''No requests found''\<rparr>, cfg))"

definition requests_next ::
  "('w, 'i) env \<Rightarrow> (feature_iterator \<times> 'i) \<times> sh_config option \<Rightarrow> 'w world
     \<Rightarrow> (error + (batch \<times> ((feature_iterator \<times> 'i) \<times> sh_config option)) option) \<times> 'w world" where
  "requests_next E g w =
     (case iter_next E (fst g) w of
        (Inl e, w1) \<Rightarrow> (Inl e, w1)
      | (Inr None, w1) \<Rightarrow> (Inr None, w1)
      | (Inr (Some (rinfo, it)), w1) \<Rightarrow>
          (case init E JNone rinfo (snd g) of
             Inl e \<Rightarrow> (Inl e, w1)
           | Inr h \<Rightarrow> (Inr (Some (h, (it, snd g))), w1)))"

definition get_latest_request ::
  "('w, 'i) env \<Rightarrow> sh_config option \<Rightarrow> 'w world \<Rightarrow> (error + batch) \<times> 'w world" where
  "get_latest_request E cfg w =
     (let latest_request_iter =
            iter_requests E JNone JNone (JStr ''created:desc'') cfg [(''count'', JInt 1)]
      in case requests_next E latest_request_iter w of
           (Inl e, w1) \<Rightarrow> (Inl e, w1)
         | (Inr None, w1) \<Rightarrow> (Inl (ValueError ''No batch request is available''), w1)
         | (Inr (Some (h, g)), w1) \<Rightarrow> (Inr h, w1))"

subsection \<open>Collections\<close>

text \<open>
  A collection is given as a \<^verbatim>\<open>BatchCollection\<close> (read for its \<^verbatim>\<open>collection_id\<close> and its
  \<^verbatim>\<open>to_dict()\<close>), a \<^verbatim>\<open>DataCollection\<close> (read for its \<^verbatim>\<open>collection_id\<close>), or any other
  value: a dict, a str, or something the module refuses. The last component of the
  first two is \<^verbatim>\<open>str()\<close> of the object, which only error messages show.
\<close>

datatype collection_arg =
    BatchCollection json json string
  | DataCollection json string
  | Given json

fun collection_text :: "collection_arg \<Rightarrow> string" where
  "collection_text (BatchCollection cid d t) = t"
| "collection_text (DataCollection cid t) = t"
| "collection_text (Given j) = py_str j"

fun parse_collection_id :: "collection_arg \<Rightarrow> error + json" where
  "parse_collection_id (BatchCollection cid d t) = Inr cid"
| "parse_collection_id (DataCollection cid t) = Inr cid"
| "parse_collection_id (Given (JDict kvs)) = subscript (JDict kvs) ''id''"
| "parse_collection_id (Given (JStr s)) = Inr (JStr s)"
| "parse_collection_id data =
     Inl (ValueError (''Expected a BatchCollection dataclass, dictionary or a string, got ''
                      @ collection_text data @ ''.''))"

fun to_dict :: "collection_arg \<Rightarrow> error + json" where
  "to_dict (BatchCollection cid d t) = Inr d"
| "to_dict (Given (JDict kvs)) = Inr (JDict kvs)"
| "to_dict data =
     Inl (ValueError (''Expected either a BatchCollection or a dict, got ''
                      @ collection_text data @ ''.''))"

definition iter_collections ::
  "('w, 'i) env \<Rightarrow> json \<Rightarrow> sh_config option \<Rightarrow> (string \<times> json) list \<Rightarrow> feature_iterator \<times> 'i" where
  "iter_collections E search cfg kwargs =
     SentinelHubFeatureIterator E
       \<lparr>it_client = SentinelHubDownloadClient cfg,
        it_url = get_collections_url E cfg,
        it_params = dict_display ((''search'', search) # kwargs),
        exception_message = ''Failed to obtain information about available Batch collections''\<rparr>"

definition get_collection ::
  "('w, 'i) env \<Rightarrow> json \<Rightarrow> sh_config option \<Rightarrow> 'w world \<Rightarrow> (error + json) \<times> 'w world" where
  "get_collection E cid cfg w =
     (let u = get_collections_url E cfg @ ''/'' @ py_str cid;
          c = SentinelHubDownloadClient cfg
      in case client_get_json E c
                \<lparr>url = u, post_values = None, request_type = None, use_session = True\<rparr> w of
           (Inl e, w1) \<Rightarrow> (Inl e, w1)
         | (Inr j, w1) \<Rightarrow> (subscript j ''data'', w1))"

definition create_collection ::
  "('w, 'i) env \<Rightarrow> collection_arg \<Rightarrow> sh_config option \<Rightarrow> 'w world
     \<Rightarrow> (error + json) \<times> 'w world" where
  "create_collection E collection cfg w =
     (let u = get_collections_url E cfg;
          c = SentinelHubDownloadClient cfg
      in case to_dict collection of
           Inl e \<Rightarrow> (Inl e, w)
         | Inr collection_payload \<Rightarrow>
             (case client_get_json E c
                     \<lparr>url = u, post_values = Some collection_payload, request_type = None,
                      use_session = True\<rparr> w of
                (Inl e, w1) \<Rightarrow> (Inl e, w1)
              | (Inr j, w1) \<Rightarrow> (subscript j ''data'', w1)))"

definition update_collection ::
  "('w, 'i) env \<Rightarrow> collection_arg \<Rightarrow> sh_config option \<Rightarrow> 'w world
     \<Rightarrow> (error + json) \<times> 'w world" where
  "update_collection E collection cfg w =
     (case parse_collection_id collection of
        Inl e \<Rightarrow> (Inl e, w)
      | Inr cid \<Rightarrow>
          (let u = get_collections_url E cfg @ ''/'' @ py_str cid;
               c = SentinelHubDownloadClient cfg
           in case to_dict collection of
                Inl e \<Rightarrow> (Inl e, w)
              | Inr collection_payload \<Rightarrow>
                  client_get_json E c
                    \<lparr>url = u, post_values = Some collection_payload, request_type = Some PUT,
                     use_session = True\<rparr> w))"

definition delete_collection ::
  "('w, 'i) env \<Rightarrow> collection_arg \<Rightarrow> sh_config option \<Rightarrow> 'w world
     \<Rightarrow> (error + json) \<times> 'w world" where
  "delete_collection E collection cfg w =
     (case parse_collection_id collection of
        Inl e \<Rightarrow> (Inl e, w)
      | Inr cid \<Rightarrow>
          (let u = get_collections_url E cfg @ ''/'' @ py_str cid;
               c = SentinelHubDownloadClient cfg
           in client_get_json E c
                \<lparr>url = u, post_values = None, request_type = Some DELETE, use_session = True\<rparr> w))"

section \<open>Tiles by status, and the monitor\<close>

text \<open>
  \<^verbatim>\<open>tiles_per_status\<close> is a dict keyed by whatever the tiles carry as their status. A
  list or a dict is no key (TypeError); \<open>True\<close> and \<open>1\<close>, \<open>False\<close> and \<open>0\<close> are the
  same key, and the dict keeps the key it saw first.
\<close>

fun hashable :: "json \<Rightarrow> bool" where
  "hashable (JList xs) = False"
| "hashable (JDict kvs) = False"
| "hashable j = True"

fun key_norm :: "json \<Rightarrow> json" where
  "key_norm (JBool b) = JInt (if b then 1 else 0)"
| "key_norm j = j"

fun tps_get :: "(json \<times> 'a) list \<Rightarrow> json \<Rightarrow> 'a \<Rightarrow> 'a" where
  "tps_get [] k dflt = dflt"
| "tps_get (p # d) k dflt = (if key_norm (fst p) = key_norm k then snd p else tps_get d k dflt)"

fun tps_set :: "json \<Rightarrow> 'a \<Rightarrow> (json \<times> 'a) list \<Rightarrow> (json \<times> 'a) list" where
  "tps_set k v [] = [(k, v)]"
| "tps_set k v (p # d) =
     (if key_norm (fst p) = key_norm k then (fst p, v) # d else p # tps_set k v d)"

text \<open>The body of the loop of \<^verbatim>\<open>get_batch_tiles_per_status\<close>, for one tile.\<close>

definition add_tile ::
  "json \<Rightarrow> (json \<times> json list) list \<Rightarrow> error + (json \<times> json list) list" where
  "add_tile tile tiles_per_status =
     and_then (subscript tile ''status'') (\<lambda>status.
       if \<not> hashable status then Inl TypeError
       else
         (let d1 = tps_set status (tps_get tiles_per_status status []) tiles_per_status
          in Inr (tps_set status (tps_get d1 status [] @ [tile]) d1)))"

text \<open>
  The \<^verbatim>\<open>for\<close> loop over the tile iterator. The iterator may never end: the first
  argument bounds the number of tiles taken, and \<open>None\<close> says the bound was reached.
\<close>

fun tiles_loop ::
  "nat \<Rightarrow> ('w, 'i) env \<Rightarrow> feature_iterator \<times> 'i \<Rightarrow> (json \<times> json list) list \<Rightarrow> 'w world
     \<Rightarrow> ((error + (json \<times> json list) list) \<times> 'w world) option" where
  "tiles_loop 0 E it d w = None"
| "tiles_loop (Suc n) E it d w =
     (case iter_next E it w of
        (Inl e, w1) \<Rightarrow> Some (Inl e, w1)
      | (Inr None, w1) \<Rightarrow> Some (Inr d, w1)
      | (Inr (Some (tile, it1)), w1) \<Rightarrow>
          (case add_tile tile d of
             Inl e \<Rightarrow> Some (Inl e, w1)
           | Inr d1 \<Rightarrow> tiles_loop n E it1 d1 w1))"

definition get_batch_tiles_per_status ::
  "nat \<Rightarrow> ('w, 'i) env \<Rightarrow> batch \<Rightarrow> 'w world
     \<Rightarrow> ((error + (json \<times> json list) list) \<times> 'w world) option" where
  "get_batch_tiles_per_status n E batch_request w =
     tiles_loop n E (iter_tiles E JNone [] batch_request) [] w"

text \<open>
  \<^verbatim>\<open>monitor_batch_job\<close>, first loop: while the status is one of the three early ones,
  log, sleep, reload, read the status again. Both loops of the monitor may run for
  ever; the first argument bounds the number of rounds, \<open>None\<close> says it was reached.
\<close>

fun analysis_loop ::
  "nat \<Rightarrow> ('w, 'i) env \<Rightarrow> int \<Rightarrow> json \<Rightarrow> batch \<Rightarrow> 'w world
     \<Rightarrow> ((error + json) \<times> batch \<times> 'w world) option" where
  "analysis_loop 0 E analysis_sleep_time status h w = None"
| "analysis_loop (Suc n) E analysis_sleep_time status h w =
     (if py_in status [''CREATED'', ''ANALYSING'', ''ANALYSIS_DONE'']
      then
        (case sleep analysis_sleep_time
                (emit (LogInfo ''Batch job has a status %s, sleeping for %d seconds''
                         [status, JInt analysis_sleep_time]) w) of
           (Inl e, w1) \<Rightarrow> Some (Inl e, h, w1)
         | (Inr u, w1) \<Rightarrow>
             (case update_info E h w1 of
                (Inl e, h2, w2) \<Rightarrow> Some (Inl e, h2, w2)
              | (Inr u, h2, w2) \<Rightarrow>
                  (case info E h2 w2 of
                     (Inl e, h3, w3) \<Rightarrow> Some (Inl e, h3, w3)
                   | (Inr i, h3, w3) \<Rightarrow>
                       (case subscript i ''status'' of
                          Inl e \<Rightarrow> Some (Inl e, h3, w3)
                        | Inr status1 \<Rightarrow> analysis_loop n E analysis_sleep_time status1 h3 w3))))
      else Some (Inr status, h, w))"

text \<open>Lines 702 to 708: the first load of the description, then the first loop.\<close>

definition analysis_phase ::
  "nat \<Rightarrow> ('w, 'i) env \<Rightarrow> int \<Rightarrow> batch \<Rightarrow> 'w world
     \<Rightarrow> ((error + json) \<times> batch \<times> 'w world) option" where
  "analysis_phase n E analysis_sleep_time batch_request w =
     (case update_info E batch_request w of
        (Inl e, h1, w1) \<Rightarrow> Some (Inl e, h1, w1)
      | (Inr u, h1, w1) \<Rightarrow>
          (case info E h1 w1 of
             (Inl e, h2, w2) \<Rightarrow> Some (Inl e, h2, w2)
           | (Inr i, h2, w2) \<Rightarrow>
               (case subscript i ''status'' of
                  Inl e \<Rightarrow> Some (Inl e, h2, w2)
                | Inr status \<Rightarrow> analysis_loop n E analysis_sleep_time status h2 w2)))"

text \<open>\<^verbatim>\<open>finished_count < total_tile_count\<close>: an int against what the description holds.\<close>

fun int_less :: "int \<Rightarrow> json \<Rightarrow> error + bool" where
  "int_less i (JInt t) = Inr (i < t)"
| "int_less i (JBool b) = Inr (i < (if b then 1 else 0))"
| "int_less i j = Inl TypeError"

text \<open>
  The second loop. Its variables are \<^verbatim>\<open>finished_count\<close>, \<^verbatim>\<open>success_count\<close> and the three
  names the body assigns, \<^verbatim>\<open>tiles_per_status\<close>, \<^verbatim>\<open>processed_tiles_num\<close> and
  \<^verbatim>\<open>failed_tiles_num\<close>, which hold nothing before the first round.
\<close>

fun sampling_loop ::
  "nat \<Rightarrow> nat \<Rightarrow> ('w, 'i) env \<Rightarrow> int \<Rightarrow> json \<Rightarrow> batch \<Rightarrow> int \<Rightarrow> int
     \<Rightarrow> ((json \<times> json list) list \<times> int \<times> int) option \<Rightarrow> 'w world
     \<Rightarrow> ((error + ((json \<times> json list) list \<times> int \<times> int) option) \<times> 'w world) option" where
  "sampling_loop 0 m E sleep_time total_tile_count h finished_count success_count assigned w = None"
| "sampling_loop (Suc n) m E sleep_time total_tile_count h finished_count success_count assigned w =
     (case int_less finished_count total_tile_count of
        Inl e \<Rightarrow> Some (Inl e, w)
      | Inr False \<Rightarrow> Some (Inr assigned, w)
      | Inr True \<Rightarrow>
          (case get_batch_tiles_per_status m E h w of
             None \<Rightarrow> None
           | Some (Inl e, w1) \<Rightarrow> Some (Inl e, w1)
           | Some (Inr tiles_per_status, w1) \<Rightarrow>
               (let processed_tiles_num = int (length (tps_get tiles_per_status (JStr ''PROCESSED'') []));
                    failed_tiles_num = int (length (tps_get tiles_per_status (JStr ''FAILED'') []));
                    new_success_count = processed_tiles_num;
                    new_finished_count = processed_tiles_num + failed_tiles_num;
                    w2 = emit (Tqdm ''Progress rate'' (BarUpdate (new_finished_count - finished_count))) w1;
                    w3 = (if new_finished_count \<noteq> finished_count
                          then emit (Tqdm ''Success rate'' BarRefresh)
                                 (emit (Tqdm ''Success rate'' (BarSetTotal new_finished_count)) w2)
                          else w2);
                    w4 = emit (Tqdm ''Success rate'' (BarUpdate (new_success_count - success_count))) w3
                in case (case int_less new_finished_count total_tile_count of
                           Inl e \<Rightarrow> (Inl e, w4)
                         | Inr True \<Rightarrow> sleep sleep_time w4
                         | Inr False \<Rightarrow> (Inr (), w4)) of
                     (Inl e, w5) \<Rightarrow> Some (Inl e, w5)
                   | (Inr u, w5) \<Rightarrow>
                       sampling_loop n m E sleep_time total_tile_count h
                         new_finished_count new_success_count
                         (Some (tiles_per_status, processed_tiles_num, failed_tiles_num)) w5)))"

text \<open>
  Lines 712 to 741. The two progress bars are opened by the \<^verbatim>\<open>with\<close> statement and
  closed when its block is left, by the end of the loop or by an exception, the inner
  bar first.
\<close>

definition sampling_phase ::
  "nat \<Rightarrow> ('w, 'i) env \<Rightarrow> int \<Rightarrow> json \<Rightarrow> batch \<Rightarrow> 'w world
     \<Rightarrow> ((error + (json \<times> json list) list) \<times> batch \<times> 'w world) option" where
  "sampling_phase n E sleep_time status h w =
     (let w1 = (if status = JStr ''PROCESSING'' then emit (LogInfo ''Batch job is running'' []) w else w)
      in case info E h w1 of
           (Inl e, h2, w2) \<Rightarrow> Some (Inl e, h2, w2)
         | (Inr i, h2, w2) \<Rightarrow>
             (case subscript i ''tileCount'' of
                Inl e \<Rightarrow> Some (Inl e, h2, w2)
              | Inr total_tile_count \<Rightarrow>
                  (case sampling_loop n n E sleep_time total_tile_count h2 0 0 None
                          (emit (Tqdm ''Success rate'' (BarOpen (JInt 0)))
                             (emit (Tqdm ''Progress rate'' (BarOpen total_tile_count)) w2)) of
                     None \<Rightarrow> None
                   | Some (r, w3) \<Rightarrow>
                       (let w4 = emit (Tqdm ''Progress rate'' BarClose)
                                   (emit (Tqdm ''Success rate'' BarClose) w3)
                        in case r of
                             Inl e \<Rightarrow> Some (Inl e, h2, w4)
                           | Inr None \<Rightarrow> Some (Inl (UnboundLocalError ''failed_tiles_num''), h2, w4)
                           | Inr (Some (tiles_per_status, processed_tiles_num, failed_tiles_num)) \<Rightarrow>
                               Some (Inr tiles_per_status, h2,
                                     (if failed_tiles_num \<noteq> 0
                                      then emit (LogInfo ''Batch job failed for %d tiles''
                                                   [JInt processed_tiles_num]) w4
                                      else w4))))))"

definition monitor_batch_job ::
  "nat \<Rightarrow> ('w, 'i) env \<Rightarrow> batch \<Rightarrow> int \<Rightarrow> int \<Rightarrow> 'w world
     \<Rightarrow> ((error + (json \<times> json list) list) \<times> batch \<times> 'w world) option" where
  "monitor_batch_job n E batch_request sleep_time analysis_sleep_time w =
     (case analysis_phase n E analysis_sleep_time batch_request w of
        None \<Rightarrow> None
      | Some (Inl e, h1, w1) \<Rightarrow> Some (Inl e, h1, w1)
      | Some (Inr status, h1, w1) \<Rightarrow>
          (case raise_for_status E (Statuses [''FAILED'', ''CANCELED'']) h1 w1 of
             (Inl e, h2, w2) \<Rightarrow> Some (Inl e, h2, w2)
           | (Inr u, h2, w2) \<Rightarrow> sampling_phase n E sleep_time status h2 w2))"

section \<open>Notions the properties are stated with\<close>

text \<open>
  The verb and URL of every \<^verbatim>\<open>get_json\<close> call of a trace, in order; an optional path
  segment \<^verbatim>\<open>[/{id}]\<close>, which the URL builders add for a truthy identifier only; the set
  of statuses \<^verbatim>\<open>raise_for_status\<close> is given.
\<close>

definition requests_of :: "event list \<Rightarrow> (request_type \<times> string) list" where
  "requests_of evs =
     concat (map (\<lambda>ev. case ev of Request c r \<Rightarrow> [(effective_verb r, url r)] | _ \<Rightarrow> []) evs)"

definition segment :: "json \<Rightarrow> string" where
  "segment j = (if truthy j then ''/'' @ py_str j else [])"

fun status_set :: "status_arg \<Rightarrow> string set" where
  "status_set (OneStatus s) = {s}"
| "status_set (Statuses xs) = set xs"

text \<open>
  A service to run the functions on: \<^verbatim>\<open>get_json\<close> answers with the next description of
  a list and fails when the list is used up; every feature iterator yields the same
  features.
\<close>

definition scripted_service :: "json list \<Rightarrow> (json list, json list) env" where
  "scripted_service features =
     \<lparr>SHConfig = \<lparr>sh_base_url = ''https://services.sentinel-hub.com''\<rparr>,
      get_json = (\<lambda>c r s. case s of [] \<Rightarrow> (Inl (DownloadFailed ''no answer''), [])
                                    | j # js \<Rightarrow> (Inr j, js)),
      new_features = (\<lambda>a. features),
      next_feature = (\<lambda>i s. (case i of [] \<Rightarrow> Inr None | x # xs \<Rightarrow> Inr (Some (x, xs)), s))\<rparr>"

definition job :: "string \<Rightarrow> json \<Rightarrow> batch" where
  "job rid rinfo =
     \<lparr>request_id = JStr rid,
      config = \<lparr>sh_base_url = ''https://sh''\<rparr>,
      request_info = rinfo,
      client = SentinelHubDownloadClient (Some \<lparr>sh_base_url = ''https://sh''\<rparr>)\<rparr>"

definition answers :: "json list \<Rightarrow> json list world" where
  "answers js = \<lparr>server = js, trace = []\<rparr>"

text \<open>The handle the constructor builds from an identifier and a description.\<close>

definition batch_of :: "('w, 'i) env \<Rightarrow> json \<Rightarrow> json \<Rightarrow> sh_config option \<Rightarrow> batch" where
  "batch_of E rid rinfo cfg =
     \<lparr>request_id = rid,
      config = config_or_default E cfg,
      request_info = rinfo,
      client = SentinelHubDownloadClient (Some (config_or_default E cfg))\<rparr>"

text \<open>
  The part of the RuntimeError message that carries the service's error text, and a
  description of a failed job to run the functions on.
\<close>

definition error_text :: "json \<Rightarrow> string" where
  "error_text rinfo =
     (case dict_get rinfo ''error'' (JStr []) of
        Inr e \<Rightarrow> (if truthy e then '' and error message: '' @ [CHR 0x22] @ py_str e @ [CHR 0x22] else [])
      | Inl x \<Rightarrow> [])"

definition failed_job :: json where
  "failed_job = JDict [(''id'', JStr ''j1''), (''status'', JStr ''FAILED''), (''error'', JStr ''out of memory'')]"

text \<open>
  The feature iterator \<^verbatim>\<open>get_latest_request\<close> builds, and a description of a finished
  job to run the functions on.
\<close>

definition latest_request_query :: "('w, 'i) env \<Rightarrow> sh_config option \<Rightarrow> feature_iterator" where
  "latest_request_query E cfg =
     \<lparr>it_client = SentinelHubDownloadClient cfg,
      it_url = get_batch_url E cfg @ ''/process'',
      it_params = [(''sort'', JStr ''created:desc''), (''count'', JInt 1)],
      exception_message = ''No requests found''\<rparr>"

definition done_job :: json where
  "done_job = JDict [(''id'', JStr ''j7''), (''status'', JStr ''DONE''), (''tileCount'', JInt 3)]"

text \<open>
  The operations of a handle, one constructor for each method and property of the
  class that takes \<^verbatim>\<open>self\<close>, and what running one does to the handle and the service.
  The methods that have no handle in their result do not assign to it. \<open>is_action\<close>
  marks those; \<open>reads_info\<close> marks the ones that go through the property \<^verbatim>\<open>info\<close>.
  \<open>refreshed\<close> is the handle after a call whose answer becomes the description: the
  answer, whole, or the handle as it was when the call fails.
\<close>

datatype operation =
    OpUpdateInfo
  | OpInfo
  | OpEvalscript
  | OpBbox
  | OpGeometry
  | OpRepr
  | OpRaiseForStatus status_arg
  | OpUpdate json json "(string \<times> json) list"
  | OpDelete
  | OpStartAnalysis
  | OpStartJob
  | OpCancelJob
  | OpRestartJob
  | OpIterTiles json "(string \<times> json) list"
  | OpGetTile json
  | OpReprocessTile json

definition outcome :: "error + 'a \<Rightarrow> error option" where
  "outcome r = (case r of Inl e \<Rightarrow> Some e | Inr x \<Rightarrow> None)"

fun run ::
  "('w, 'i) env \<Rightarrow> operation \<Rightarrow> batch \<Rightarrow> 'w world \<Rightarrow> error option \<times> batch \<times> 'w world" where
  "run E OpUpdateInfo h w = (case update_info E h w of (r, h1, w1) \<Rightarrow> (outcome r, h1, w1))"
| "run E OpInfo h w = (case info E h w of (r, h1, w1) \<Rightarrow> (outcome r, h1, w1))"
| "run E OpEvalscript h w = (case evalscript E h w of (r, h1, w1) \<Rightarrow> (outcome r, h1, w1))"
| "run E OpBbox h w = (case bbox E h w of (r, h1, w1) \<Rightarrow> (outcome r, h1, w1))"
| "run E OpGeometry h w = (case geometry E h w of (r, h1, w1) \<Rightarrow> (outcome r, h1, w1))"
| "run E OpRepr h w = (case batch_repr E h w of (r, h1, w1) \<Rightarrow> (outcome r, h1, w1))"
| "run E (OpRaiseForStatus st) h w =
     (case raise_for_status E st h w of (r, h1, w1) \<Rightarrow> (outcome r, h1, w1))"
| "run E (OpUpdate outp d kw) h w =
     (case update E outp d kw h w of (r, h1, w1) \<Rightarrow> (outcome r, h1, w1))"
| "run E OpDelete h w = (case delete E h w of (r, w1) \<Rightarrow> (outcome r, h, w1))"
| "run E OpStartAnalysis h w = (case start_analysis E h w of (r, w1) \<Rightarrow> (outcome r, h, w1))"
| "run E OpStartJob h w = (case start_job E h w of (r, w1) \<Rightarrow> (outcome r, h, w1))"
| "run E OpCancelJob h w = (case cancel_job E h w of (r, w1) \<Rightarrow> (outcome r, h, w1))"
| "run E OpRestartJob h w = (case restart_job E h w of (r, w1) \<Rightarrow> (outcome r, h, w1))"
| "run E (OpIterTiles st kw) h w = (None, h, w)"
| "run E (OpGetTile t) h w = (case get_tile E t h w of (r, w1) \<Rightarrow> (outcome r, h, w1))"
| "run E (OpReprocessTile t) h w =
     (case reprocess_tile E t h w of (r, w1) \<Rightarrow> (outcome r, h, w1))"

fun is_action :: "operation \<Rightarrow> bool" where
  "is_action OpDelete = True"
| "is_action OpStartAnalysis = True"
| "is_action OpStartJob = True"
| "is_action OpCancelJob = True"
| "is_action OpRestartJob = True"
| "is_action (OpIterTiles st kw) = True"
| "is_action (OpGetTile t) = True"
| "is_action (OpReprocessTile t) = True"
| "is_action op = False"

fun reads_info :: "operation \<Rightarrow> bool" where
  "reads_info OpInfo = True"
| "reads_info OpEvalscript = True"
| "reads_info OpBbox = True"
| "reads_info OpGeometry = True"
| "reads_info OpRepr = True"
| "reads_info (OpRaiseForStatus st) = True"
| "reads_info op = False"

definition info_request :: "('w, 'i) env \<Rightarrow> batch \<Rightarrow> request" where
  "info_request E h =
     \<lparr>url = get_process_url E (Some (config h)) (request_id h), post_values = None,
      request_type = None, use_session = True\<rparr>"

definition update_request ::
  "('w, 'i) env \<Rightarrow> json \<Rightarrow> json \<Rightarrow> (string \<times> json) list \<Rightarrow> batch \<Rightarrow> request" where
  "update_request E outp description kwargs h =
     \<lparr>url = get_process_url E (Some (config h)) (request_id h),
      post_values = Some (JDict (remove_undefined
         (dict_display ([(''output'', outp), (''description'', description)] @ kwargs)))),
      request_type = Some PUT, use_session = True\<rparr>"

definition refreshed :: "('w, 'i) env \<Rightarrow> request \<Rightarrow> batch \<Rightarrow> 'w world \<Rightarrow> batch" where
  "refreshed E req h w =
     (case fst (get_json E (client h) req (server w)) of
        Inl e \<Rightarrow> h
      | Inr j \<Rightarrow> h\<lparr>request_info := j\<rparr>)"

text \<open>
  The named parameters of \<^verbatim>\<open>output\<close> and of \<^verbatim>\<open>create\<close> with the keys they are stored
  under, the request \<^verbatim>\<open>create\<close> sends, and a call of \<^verbatim>\<open>output\<close> that sets nothing.
\<close>

definition output_fields :: "output_args \<Rightarrow> (string \<times> json) list" where
  "output_fields a =
     [(''defaultTilePath'', default_tile_path a),
      (''overwrite'', overwrite a),
      (''skipExisting'', skip_existing a),
      (''cogOutput'', cog_output a),
      (''cogParameters'', cog_parameters a),
      (''createCollection'', create_collection_flag a),
      (''collectionId'', collection_id a),
      (''responses'', responses a)]"

definition create_fields :: "json \<Rightarrow> create_args \<Rightarrow> (string \<times> json) list" where
  "create_fields req a =
     [(''processRequest'', req),
      (''tilingGrid'', ca_tiling_grid a),
      (''output'', ca_output a),
      (''bucketName'', ca_bucket_name a),
      (''description'', ca_description a)]"

definition create_request :: "('w, 'i) env \<Rightarrow> json \<Rightarrow> create_args \<Rightarrow> request" where
  "create_request E req a =
     \<lparr>url = get_process_url E (ca_config a) JNone,
      post_values = Some (JDict (remove_undefined (dict_display (create_fields req a @ ca_kwargs a)))),
      request_type = None, use_session = True\<rparr>"

definition no_output_args :: output_args where
  "no_output_args =
     \<lparr>default_tile_path = JNone, overwrite = JNone, skip_existing = JNone, cog_output = JNone,
      cog_parameters = JNone, create_collection_flag = JNone, collection_id = JNone,
      responses = JNone\<rparr>"

text \<open>
  An event asks for tiles when it takes a feature from an iterator on the job's tiles
  URL or sends a request to that URL or one below it. \<open>no_tiles_asked E h w w1\<close> says
  that \<open>w1\<close> continues the trace of \<open>w\<close> and that none of the new events asks for
  tiles. \<open>same_job\<close> relates two states of one handle; \<open>holds_status\<close> says which
  status the held description shows; \<open>as_int\<close> is the number a JSON value counts as
  in a comparison with an int.
\<close>

definition asks_for_tiles :: "('w, 'i) env \<Rightarrow> batch \<Rightarrow> event \<Rightarrow> bool" where
  "asks_for_tiles E h ev =
     (case ev of
        NextFeature a \<Rightarrow> it_url a = get_tiles_url E h JNone
      | Request c r \<Rightarrow>
          take (length (get_tiles_url E h JNone)) (url r) = get_tiles_url E h JNone
      | _ \<Rightarrow> False)"

definition same_job :: "batch \<Rightarrow> batch \<Rightarrow> bool" where
  "same_job h h1 =
     (request_id h1 = request_id h \<and> config h1 = config h \<and> client h1 = client h)"

definition no_tiles_asked :: "('w, 'i) env \<Rightarrow> batch \<Rightarrow> 'w world \<Rightarrow> 'w world \<Rightarrow> bool" where
  "no_tiles_asked E h w w1 =
     (take (length (trace w)) (trace w1) = trace w
      \<and> \<not> list_ex (asks_for_tiles E h) (drop (length (trace w)) (trace w1)))"

definition holds_status :: "batch \<Rightarrow> json \<Rightarrow> bool" where
  "holds_status h status = (subscript (request_info h) ''status'' = Inr status)"

fun as_int :: "json \<Rightarrow> int option" where
  "as_int (JInt t) = Some t"
| "as_int (JBool b) = Some (if b then 1 else 0)"
| "as_int j = None"

text \<open>
  Descriptions and tiles to run the monitor on, the event of loading the description
  of job \<^verbatim>\<open>j1\<close>, and a view of a result that keeps the trace and drops the rest of the
  service.
\<close>

definition created_job :: json where
  "created_job = JDict [(''id'', JStr ''j1''), (''status'', JStr ''CREATED'')]"

definition description_request :: event where
  "description_request =
     Request (SentinelHubDownloadClient (Some \<lparr>sh_base_url = ''https://sh''\<rparr>))
       \<lparr>url = ''https://sh/api/v1/batch/process/j1'', post_values = None,
        request_type = None, use_session = True\<rparr>"

definition tile :: "int \<Rightarrow> string \<Rightarrow> json" where
  "tile k st = JDict [(''id'', JInt k), (''status'', JStr st)]"

definition running_job :: "int \<Rightarrow> json" where
  "running_job k =
     JDict [(''id'', JStr ''j1''), (''status'', JStr ''PROCESSING''), (''tileCount'', JInt k)]"

definition outcome_and_trace ::
  "((error + 'a) \<times> batch \<times> 'w world) option \<Rightarrow> ((error + 'a) \<times> batch \<times> event list) option" where
  "outcome_and_trace r = map_option (\<lambda>(x, h, w). (x, h, trace w)) r"

text \<open>
  The three names the second loop assigns agree: the two numbers are the lengths of
  the \<^verbatim>\<open>PROCESSED\<close> and \<^verbatim>\<open>FAILED\<close> lists of the mapping.
\<close>

definition counted :: "((json \<times> json list) list \<times> int \<times> int) option \<Rightarrow> bool" where
  "counted a =
     (case a of
        None \<Rightarrow> True
      | Some (tps, p, f) \<Rightarrow>
          p = int (length (tps_get tps (JStr ''PROCESSED'') []))
          \<and> f = int (length (tps_get tps (JStr ''FAILED'') [])))"

text \<open>
  The URL \<^verbatim>\<open>/process/{id}\<close> of a handle's job, a \<^verbatim>\<open>get_json\<close> call by its URL, body and
  verb (every call of the module sets \<^verbatim>\<open>use_session\<close>), and a call of \<^verbatim>\<open>create\<close> that sets
  no optional argument.
\<close>

definition job_url :: "batch \<Rightarrow> string" where
  "job_url h = sh_base_url (config h) @ ''/api/v1/batch/process/'' @ py_str (request_id h)"

definition call :: "string \<Rightarrow> json option \<Rightarrow> request_type option \<Rightarrow> request" where
  "call u body verb = \<lparr>url = u, post_values = body, request_type = verb, use_session = True\<rparr>"

definition no_create_args :: create_args where
  "no_create_args =
     \<lparr>ca_tiling_grid = JNone, ca_output = JNone, ca_bucket_name = JNone, ca_description = JNone,
      ca_config = None, ca_kwargs = []\<rparr>"

section \<open>Properties\<close>

subsection \<open>URLs and verbs\<close>

lemma client_get_json_trace:
  "client_get_json E c r w = (res, w1) \<Longrightarrow> trace w1 = trace w @ [Request c r]"
  by (auto simp add: client_get_json_def split: prod.splits)

lemma client_get_json_sends:
  "client_get_json E c r w = (res, w1) \<Longrightarrow>
     requests_of (trace w1) = requests_of (trace w) @ [(effective_verb r, url r)]"
  by (auto simp add: client_get_json_def requests_of_def split: prod.splits)

lemma process_url_shape:
  "get_process_url E cfg rid = get_batch_url E cfg @ ''/process'' @ segment rid"
  by (simp add: get_process_url_def segment_def Let_def)

lemma tiles_url_shape:
  "get_tiles_url E h t =
     get_process_url E (Some (config h)) (request_id h) @ ''/tiles'' @ segment t"
  by (simp add: get_tiles_url_def segment_def Let_def)

lemma call_job_sends:
  "requests_of (trace (snd (call_job E a h w))) =
     requests_of (trace w)
       @ [(POST, get_process_url E (Some (config h)) (request_id h) @ ''/'' @ a)]"
  by (cases "call_job E a h w")
     (auto simp add: call_job_def Let_def effective_verb_def dest!: client_get_json_sends)

lemma get_tile_sends:
  "requests_of (trace (snd (get_tile E t h w))) =
     requests_of (trace w) @ [(GET, get_tiles_url E h t)]"
  by (cases "get_tile E t h w")
     (auto simp add: get_tile_def Let_def effective_verb_def dest!: client_get_json_sends)

lemma reprocess_tile_sends:
  "requests_of (trace (snd (reprocess_tile E t h w))) =
     requests_of (trace w)
       @ [(POST, get_process_url E (Some (config h)) (request_id h)
                 @ ''/tiles/'' @ py_str t @ ''/restart'')]"
  using call_job_sends [of E "''tiles/'' @ py_str t @ ''/restart''" h w]
  by (auto simp add: reprocess_tile_def split: prod.splits sum.splits)

lemma job_url_process:
  "truthy (request_id h) \<Longrightarrow> get_process_url E (Some (config h)) (request_id h) = job_url h"
  by (simp add: get_process_url_def get_batch_url_def config_or_default_def job_url_def)

lemma update_info_trace:
  "trace (snd (snd (update_info E h w))) =
     trace w @ [Request (client h)
                  (call (get_process_url E (Some (config h)) (request_id h)) None None)]"
  by (auto simp add: update_info_def Let_def call_def
      split: prod.splits sum.splits dest!: client_get_json_trace)

lemma update_trace:
  "trace (snd (snd (update E outp d kw h w))) =
     trace w @ [Request (client h)
                  (call (get_process_url E (Some (config h)) (request_id h))
                     (Some (JDict (remove_undefined
                        (dict_display ([(''output'', outp), (''description'', d)] @ kw)))))
                     (Some PUT))]"
  by (auto simp add: update_def Let_def call_def
      split: prod.splits sum.splits dest!: client_get_json_trace)

lemma delete_trace:
  "trace (snd (delete E h w)) =
     trace w @ [Request (client h)
                  (call (get_process_url E (Some (config h)) (request_id h)) None (Some DELETE))]"
  by (cases "delete E h w")
     (auto simp add: delete_def Let_def call_def dest!: client_get_json_trace)

lemma call_job_trace:
  "trace (snd (call_job E a h w)) =
     trace w @ [Request (client h)
                  (call (get_process_url E (Some (config h)) (request_id h) @ ''/'' @ a)
                     None (Some POST))]"
  by (cases "call_job E a h w")
     (auto simp add: call_job_def Let_def call_def dest!: client_get_json_trace)

lemma get_tile_trace:
  "trace (snd (get_tile E t h w)) =
     trace w @ [Request (client h) (call (get_tiles_url E h t) None None)]"
  by (cases "get_tile E t h w")
     (auto simp add: get_tile_def Let_def call_def dest!: client_get_json_trace)

lemma reprocess_tile_trace:
  "trace (snd (reprocess_tile E t h w)) =
     trace w @ [Request (client h)
                  (call (get_process_url E (Some (config h)) (request_id h)
                         @ ''/tiles/'' @ py_str t @ ''/restart'') None (Some POST))]"
  using call_job_trace [of E "''tiles/'' @ py_str t @ ''/restart''" h w]
  by (auto simp add: reprocess_tile_def split: prod.splits sum.splits)

lemma create_plain_trace:
  "trace (snd (create E (Plain (JDict kvs)) a w)) =
     trace w @ [Request (SentinelHubDownloadClient (ca_config a))
                  (call (get_batch_url E (ca_config a) @ ''/process'')
                     (Some (JDict (remove_undefined
                        (dict_display (create_fields (JDict kvs) a @ ca_kwargs a)))))
                     None)]"
  by (auto simp add: create_def create_fields_def Let_def call_def get_process_url_def
      split: prod.splits sum.splits dest!: client_get_json_trace)

lemma create_object_trace:
  "trace (snd (create E (SentinelHubRequest (JDict kvs # rest)) a w)) =
     trace w @ [Request (SentinelHubDownloadClient (ca_config a))
                  (call (get_batch_url E (ca_config a) @ ''/process'')
                     (Some (JDict (remove_undefined
                        (dict_display (create_fields (JDict kvs) a @ ca_kwargs a)))))
                     None)]"
  by (auto simp add: create_def create_fields_def Let_def call_def get_process_url_def
      split: prod.splits sum.splits dest!: client_get_json_trace)

lemma get_tiling_grid_trace:
  "trace (snd (get_tiling_grid E g cfg w)) =
     trace w @ [Request (SentinelHubDownloadClient cfg)
                  (call (get_batch_url E cfg @ ''/tilinggrids/'' @ py_str g) None None)]"
  by (cases "get_tiling_grid E g cfg w")
     (auto simp add: get_tiling_grid_def get_tiling_grids_url_def Let_def call_def
        dest!: client_get_json_trace)

lemma get_collection_trace:
  "trace (snd (get_collection E g cfg w)) =
     trace w @ [Request (SentinelHubDownloadClient cfg)
                  (call (get_batch_url E cfg @ ''/collections/'' @ py_str g) None None)]"
  by (auto simp add: get_collection_def get_collections_url_def Let_def call_def
      split: prod.splits sum.splits dest!: client_get_json_trace)

lemma create_collection_trace:
  "to_dict c = Inr p \<Longrightarrow>
   trace (snd (create_collection E c cfg w)) =
     trace w @ [Request (SentinelHubDownloadClient cfg)
                  (call (get_batch_url E cfg @ ''/collections'') (Some p) None)]"
  by (auto simp add: create_collection_def get_collections_url_def Let_def call_def
      split: prod.splits sum.splits dest!: client_get_json_trace)

lemma update_collection_trace:
  "parse_collection_id c = Inr i \<Longrightarrow> to_dict c = Inr p \<Longrightarrow>
   trace (snd (update_collection E c cfg w)) =
     trace w @ [Request (SentinelHubDownloadClient cfg)
                  (call (get_batch_url E cfg @ ''/collections/'' @ py_str i) (Some p) (Some PUT))]"
  by (cases "update_collection E c cfg w")
     (auto simp add: update_collection_def get_collections_url_def Let_def call_def
        dest!: client_get_json_trace)

lemma delete_collection_trace:
  "parse_collection_id c = Inr i \<Longrightarrow>
   trace (snd (delete_collection E c cfg w)) =
     trace w @ [Request (SentinelHubDownloadClient cfg)
                  (call (get_batch_url E cfg @ ''/collections/'' @ py_str i) None (Some DELETE))]"
  by (cases "delete_collection E c cfg w")
     (auto simp add: delete_collection_def get_collections_url_def Let_def call_def
        dest!: client_get_json_trace)

text \<open>
  Claim C8, as amended. For every configuration the URLs follow the hierarchy: the base
  batch URL, then \<^verbatim>\<open>/process\<close> for jobs, \<^verbatim>\<open>/tilinggrids[/{id}]\<close> and \<^verbatim>\<open>/collections[/{id}]\<close>;
  and for every handle whose job identifier is truthy, \<^verbatim>\<open>/process/{id}\<close>,
  \<^verbatim>\<open>/process/{id}/{action}\<close> and \<^verbatim>\<open>/process/{id}/tiles[/{tileId}]\<close>. A falsy job identifier
  is left out of the URL. Each method sends exactly one request. The methods that name
  a verb name the matching one: POST for the job actions, PUT for \<^verbatim>\<open>update\<close> and
  \<^verbatim>\<open>update_collection\<close>, DELETE for \<^verbatim>\<open>delete\<close> and \<^verbatim>\<open>delete_collection\<close>. \<^verbatim>\<open>create\<close> and
  \<^verbatim>\<open>create_collection\<close> send a body and name no verb, and the reads send neither: their
  verb is the download client's choice. The collection in the URL is the
  \<^verbatim>\<open>collection_id\<close> of a collection object, the \<^verbatim>\<open>id\<close> of a dict, or the string itself.
  The listing calls are made by the feature iterator, for which the module fixes the URL.
\<close>

theorem url_hierarchy_and_verbs:
  "get_batch_url E None = sh_base_url (SHConfig E) @ ''/api/v1/batch''
   \<and> get_batch_url E (Some c0) = sh_base_url c0 @ ''/api/v1/batch''
   \<and> get_process_url E cfg JNone = get_batch_url E cfg @ ''/process''
   \<and> (truthy rid \<longrightarrow>
        get_process_url E cfg rid = get_batch_url E cfg @ ''/process/'' @ py_str rid)
   \<and> (\<not> truthy rid \<longrightarrow> get_process_url E cfg rid = get_batch_url E cfg @ ''/process'')
   \<and> get_tiling_grids_url E cfg = get_batch_url E cfg @ ''/tilinggrids''
   \<and> get_collections_url E cfg = get_batch_url E cfg @ ''/collections''
   \<and> (truthy (request_id h) \<longrightarrow>
        get_tiles_url E h JNone = job_url h @ ''/tiles''
        \<and> (truthy t \<longrightarrow> get_tiles_url E h t = job_url h @ ''/tiles/'' @ py_str t)
        \<and> (\<not> truthy t \<longrightarrow> get_tiles_url E h t = job_url h @ ''/tiles'')
        \<and> trace (snd (snd (update_info E h w))) =
            trace w @ [Request (client h) (call (job_url h) None None)]
        \<and> trace (snd (snd (update E outp d kw h w))) =
            trace w @ [Request (client h)
                         (call (job_url h)
                            (Some (JDict (remove_undefined
                               (dict_display ([(''output'', outp), (''description'', d)] @ kw)))))
                            (Some PUT))]
        \<and> trace (snd (delete E h w)) =
            trace w @ [Request (client h) (call (job_url h) None (Some DELETE))]
        \<and> trace (snd (call_job E action h w)) =
            trace w @ [Request (client h) (call (job_url h @ ''/'' @ action) None (Some POST))]
        \<and> trace (snd (start_analysis E h w)) =
            trace w @ [Request (client h) (call (job_url h @ ''/analyse'') None (Some POST))]
        \<and> trace (snd (start_job E h w)) =
            trace w @ [Request (client h) (call (job_url h @ ''/start'') None (Some POST))]
        \<and> trace (snd (cancel_job E h w)) =
            trace w @ [Request (client h) (call (job_url h @ ''/cancel'') None (Some POST))]
        \<and> trace (snd (restart_job E h w)) =
            trace w @ [Request (client h) (call (job_url h @ ''/restartpartial'') None (Some POST))]
        \<and> (truthy t \<longrightarrow>
             trace (snd (get_tile E t h w)) =
               trace w @ [Request (client h)
                            (call (job_url h @ ''/tiles/'' @ py_str t) None None)])
        \<and> trace (snd (reprocess_tile E t h w)) =
            trace w @ [Request (client h)
                         (call (job_url h @ ''/tiles/'' @ py_str t @ ''/restart'') None (Some POST))]
        \<and> it_url (fst (iter_tiles E st kw h)) = job_url h @ ''/tiles''
        \<and> it_client (fst (iter_tiles E st kw h)) = client h)
   \<and> trace (snd (create E (Plain (JDict kvs)) a w)) =
       trace w @ [Request (SentinelHubDownloadClient (ca_config a))
                    (call (get_batch_url E (ca_config a) @ ''/process'')
                       (Some (JDict (remove_undefined
                          (dict_display (create_fields (JDict kvs) a @ ca_kwargs a)))))
                       None)]
   \<and> trace (snd (create E (SentinelHubRequest (JDict kvs # rest)) a w)) =
       trace w @ [Request (SentinelHubDownloadClient (ca_config a))
                    (call (get_batch_url E (ca_config a) @ ''/process'')
                       (Some (JDict (remove_undefined
                          (dict_display (create_fields (JDict kvs) a @ ca_kwargs a)))))
                       None)]
   \<and> it_url (fst (fst (iter_requests E user search sorting cfg kw))) =
       get_batch_url E cfg @ ''/process''
   \<and> it_url (fst (iter_tiling_grids E cfg kw)) = get_batch_url E cfg @ ''/tilinggrids''
   \<and> it_url (fst (iter_collections E search cfg kw)) = get_batch_url E cfg @ ''/collections''
   \<and> trace (snd (get_tiling_grid E g cfg w)) =
       trace w @ [Request (SentinelHubDownloadClient cfg)
                    (call (get_batch_url E cfg @ ''/tilinggrids/'' @ py_str g) None None)]
   \<and> trace (snd (get_collection E g cfg w)) =
       trace w @ [Request (SentinelHubDownloadClient cfg)
                    (call (get_batch_url E cfg @ ''/collections/'' @ py_str g) None None)]
   \<and> trace (snd (create_collection E (BatchCollection cid body txt) cfg w)) =
       trace w @ [Request (SentinelHubDownloadClient cfg)
                    (call (get_batch_url E cfg @ ''/collections'') (Some body) None)]
   \<and> trace (snd (create_collection E (Given (JDict kvs)) cfg w)) =
       trace w @ [Request (SentinelHubDownloadClient cfg)
                    (call (get_batch_url E cfg @ ''/collections'') (Some (JDict kvs)) None)]
   \<and> trace (snd (update_collection E (BatchCollection cid body txt) cfg w)) =
       trace w @ [Request (SentinelHubDownloadClient cfg)
                    (call (get_batch_url E cfg @ ''/collections/'' @ py_str cid)
                       (Some body) (Some PUT))]
   \<and> (map_of kvs ''id'' = Some cid \<longrightarrow>
        trace (snd (update_collection E (Given (JDict kvs)) cfg w)) =
          trace w @ [Request (SentinelHubDownloadClient cfg)
                       (call (get_batch_url E cfg @ ''/collections/'' @ py_str cid)
                          (Some (JDict kvs)) (Some PUT))])
   \<and> trace (snd (delete_collection E (Given (JStr s)) cfg w)) =
       trace w @ [Request (SentinelHubDownloadClient cfg)
                    (call (get_batch_url E cfg @ ''/collections/'' @ s) None (Some DELETE))]
   \<and> trace (snd (delete_collection E (BatchCollection cid body txt) cfg w)) =
       trace w @ [Request (SentinelHubDownloadClient cfg)
                    (call (get_batch_url E cfg @ ''/collections/'' @ py_str cid) None (Some DELETE))]
   \<and> trace (snd (delete_collection E (DataCollection cid txt) cfg w)) =
       trace w @ [Request (SentinelHubDownloadClient cfg)
                    (call (get_batch_url E cfg @ ''/collections/'' @ py_str cid) None (Some DELETE))]
   \<and> (map_of kvs ''id'' = Some cid \<longrightarrow>
        trace (snd (delete_collection E (Given (JDict kvs)) cfg w)) =
          trace w @ [Request (SentinelHubDownloadClient cfg)
                       (call (get_batch_url E cfg @ ''/collections/'' @ py_str cid)
                          None (Some DELETE))])"
proof -
  have base:
    "get_batch_url E None = sh_base_url (SHConfig E) @ ''/api/v1/batch''"
    "get_batch_url E (Some c0) = sh_base_url c0 @ ''/api/v1/batch''"
    "get_process_url E cfg JNone = get_batch_url E cfg @ ''/process''"
    "truthy rid \<longrightarrow>
        get_process_url E cfg rid = get_batch_url E cfg @ ''/process/'' @ py_str rid"
    "\<not> truthy rid \<longrightarrow> get_process_url E cfg rid = get_batch_url E cfg @ ''/process''"
    "get_tiling_grids_url E cfg = get_batch_url E cfg @ ''/tilinggrids''"
    "get_collections_url E cfg = get_batch_url E cfg @ ''/collections''"
    by (simp_all add: get_batch_url_def config_or_default_def get_process_url_def
          get_tiling_grids_url_def get_collections_url_def)
  have iters:
    "it_url (fst (fst (iter_requests E user search sorting cfg kw))) =
       get_batch_url E cfg @ ''/process''"
    "it_url (fst (iter_tiling_grids E cfg kw)) = get_batch_url E cfg @ ''/tilinggrids''"
    "it_url (fst (iter_collections E search cfg kw)) = get_batch_url E cfg @ ''/collections''"
    by (simp_all add: iter_requests_def iter_tiling_grids_def iter_collections_def
          SentinelHubFeatureIterator_def Let_def get_process_url_def
          get_tiling_grids_url_def get_collections_url_def)
  have colls:
    "trace (snd (create_collection E (BatchCollection cid body txt) cfg w)) =
       trace w @ [Request (SentinelHubDownloadClient cfg)
                    (call (get_batch_url E cfg @ ''/collections'') (Some body) None)]"
    "trace (snd (create_collection E (Given (JDict kvs)) cfg w)) =
       trace w @ [Request (SentinelHubDownloadClient cfg)
                    (call (get_batch_url E cfg @ ''/collections'') (Some (JDict kvs)) None)]"
    "trace (snd (update_collection E (BatchCollection cid body txt) cfg w)) =
       trace w @ [Request (SentinelHubDownloadClient cfg)
                    (call (get_batch_url E cfg @ ''/collections/'' @ py_str cid)
                       (Some body) (Some PUT))]"
    "map_of kvs ''id'' = Some cid \<longrightarrow>
        trace (snd (update_collection E (Given (JDict kvs)) cfg w)) =
          trace w @ [Request (SentinelHubDownloadClient cfg)
                       (call (get_batch_url E cfg @ ''/collections/'' @ py_str cid)
                          (Some (JDict kvs)) (Some PUT))]"
    "trace (snd (delete_collection E (Given (JStr s)) cfg w)) =
       trace w @ [Request (SentinelHubDownloadClient cfg)
                    (call (get_batch_url E cfg @ ''/collections/'' @ s) None (Some DELETE))]"
    "trace (snd (delete_collection E (BatchCollection cid body txt) cfg w)) =
       trace w @ [Request (SentinelHubDownloadClient cfg)
                    (call (get_batch_url E cfg @ ''/collections/'' @ py_str cid) None (Some DELETE))]"
    "trace (snd (delete_collection E (DataCollection cid txt) cfg w)) =
       trace w @ [Request (SentinelHubDownloadClient cfg)
                    (call (get_batch_url E cfg @ ''/collections/'' @ py_str cid) None (Some DELETE))]"
    "map_of kvs ''id'' = Some cid \<longrightarrow>
        trace (snd (delete_collection E (Given (JDict kvs)) cfg w)) =
          trace w @ [Request (SentinelHubDownloadClient cfg)
                       (call (get_batch_url E cfg @ ''/collections/'' @ py_str cid)
                          None (Some DELETE))]"
    using delete_collection_trace [of "Given (JStr s)" "JStr s" E cfg w]
    by (simp_all add: create_collection_trace update_collection_trace delete_collection_trace)
  have job: "truthy (request_id h) \<longrightarrow>
        get_tiles_url E h JNone = job_url h @ ''/tiles''
        \<and> (truthy t \<longrightarrow> get_tiles_url E h t = job_url h @ ''/tiles/'' @ py_str t)
        \<and> (\<not> truthy t \<longrightarrow> get_tiles_url E h t = job_url h @ ''/tiles'')
        \<and> trace (snd (snd (update_info E h w))) =
            trace w @ [Request (client h) (call (job_url h) None None)]
        \<and> trace (snd (snd (update E outp d kw h w))) =
            trace w @ [Request (client h)
                         (call (job_url h)
                            (Some (JDict (remove_undefined
                               (dict_display ([(''output'', outp), (''description'', d)] @ kw)))))
                            (Some PUT))]
        \<and> trace (snd (delete E h w)) =
            trace w @ [Request (client h) (call (job_url h) None (Some DELETE))]
        \<and> trace (snd (call_job E action h w)) =
            trace w @ [Request (client h) (call (job_url h @ ''/'' @ action) None (Some POST))]
        \<and> trace (snd (start_analysis E h w)) =
            trace w @ [Request (client h) (call (job_url h @ ''/analyse'') None (Some POST))]
        \<and> trace (snd (start_job E h w)) =
            trace w @ [Request (client h) (call (job_url h @ ''/start'') None (Some POST))]
        \<and> trace (snd (cancel_job E h w)) =
            trace w @ [Request (client h) (call (job_url h @ ''/cancel'') None (Some POST))]
        \<and> trace (snd (restart_job E h w)) =
            trace w @ [Request (client h) (call (job_url h @ ''/restartpartial'') None (Some POST))]
        \<and> (truthy t \<longrightarrow>
             trace (snd (get_tile E t h w)) =
               trace w @ [Request (client h)
                            (call (job_url h @ ''/tiles/'' @ py_str t) None None)])
        \<and> trace (snd (reprocess_tile E t h w)) =
            trace w @ [Request (client h)
                         (call (job_url h @ ''/tiles/'' @ py_str t @ ''/restart'') None (Some POST))]
        \<and> it_url (fst (iter_tiles E st kw h)) = job_url h @ ''/tiles''
        \<and> it_client (fst (iter_tiles E st kw h)) = client h"
  proof
    assume i: "truthy (request_id h)"
    note p = job_url_process [OF i, of E]
    have tiles: "get_tiles_url E h JNone = job_url h @ ''/tiles''"
      "truthy t \<longrightarrow> get_tiles_url E h t = job_url h @ ''/tiles/'' @ py_str t"
      "\<not> truthy t \<longrightarrow> get_tiles_url E h t = job_url h @ ''/tiles''"
      by (simp_all add: get_tiles_url_def p)
    show "get_tiles_url E h JNone = job_url h @ ''/tiles''
        \<and> (truthy t \<longrightarrow> get_tiles_url E h t = job_url h @ ''/tiles/'' @ py_str t)
        \<and> (\<not> truthy t \<longrightarrow> get_tiles_url E h t = job_url h @ ''/tiles'')
        \<and> trace (snd (snd (update_info E h w))) =
            trace w @ [Request (client h) (call (job_url h) None None)]
        \<and> trace (snd (snd (update E outp d kw h w))) =
            trace w @ [Request (client h)
                         (call (job_url h)
                            (Some (JDict (remove_undefined
                               (dict_display ([(''output'', outp), (''description'', d)] @ kw)))))
                            (Some PUT))]
        \<and> trace (snd (delete E h w)) =
            trace w @ [Request (client h) (call (job_url h) None (Some DELETE))]
        \<and> trace (snd (call_job E action h w)) =
            trace w @ [Request (client h) (call (job_url h @ ''/'' @ action) None (Some POST))]
        \<and> trace (snd (start_analysis E h w)) =
            trace w @ [Request (client h) (call (job_url h @ ''/analyse'') None (Some POST))]
        \<and> trace (snd (start_job E h w)) =
            trace w @ [Request (client h) (call (job_url h @ ''/start'') None (Some POST))]
        \<and> trace (snd (cancel_job E h w)) =
            trace w @ [Request (client h) (call (job_url h @ ''/cancel'') None (Some POST))]
        \<and> trace (snd (restart_job E h w)) =
            trace w @ [Request (client h) (call (job_url h @ ''/restartpartial'') None (Some POST))]
        \<and> (truthy t \<longrightarrow>
             trace (snd (get_tile E t h w)) =
               trace w @ [Request (client h)
                            (call (job_url h @ ''/tiles/'' @ py_str t) None None)])
        \<and> trace (snd (reprocess_tile E t h w)) =
            trace w @ [Request (client h)
                         (call (job_url h @ ''/tiles/'' @ py_str t @ ''/restart'') None (Some POST))]
        \<and> it_url (fst (iter_tiles E st kw h)) = job_url h @ ''/tiles''
        \<and> it_client (fst (iter_tiles E st kw h)) = client h"
      using tiles
      by (simp add: update_info_trace update_trace delete_trace call_job_trace get_tile_trace
          reprocess_tile_trace start_analysis_def start_job_def cancel_job_def restart_job_def
          iter_tiles_def SentinelHubFeatureIterator_def p)
  qed
  show ?thesis
    by (intro conjI base iters colls job create_plain_trace create_object_trace
          get_tiling_grid_trace get_collection_trace)
qed

theorem url_hierarchy_and_verbs_witness:
  "truthy (request_id (job ''j1'' JNone))
   \<and> trace (snd (delete (scripted_service []) (job ''j1'' JNone) (answers [JNone]))) =
       [Request (client (job ''j1'' JNone))
          (call ''https://sh/api/v1/batch/process/j1'' None (Some DELETE))]
   \<and> trace (snd (start_job (scripted_service []) (job ''j1'' JNone) (answers [JNone]))) =
       [Request (client (job ''j1'' JNone))
          (call ''https://sh/api/v1/batch/process/j1/start'' None (Some POST))]
   \<and> truthy (JInt 7)
   \<and> trace (snd (get_tile (scripted_service []) (JInt 7) (job ''j1'' JNone) (answers [JNone]))) =
       [Request (client (job ''j1'' JNone))
          (call ''https://sh/api/v1/batch/process/j1/tiles/7'' None None)]
   \<and> map_of [(''id'', JStr ''c9'')] ''id'' = Some (JStr ''c9'')
   \<and> trace (snd (delete_collection (scripted_service []) (Given (JDict [(''id'', JStr ''c9'')]))
        None (answers [JNone]))) =
       [Request (SentinelHubDownloadClient None)
          (call ''https://services.sentinel-hub.com/api/v1/batch/collections/c9'' None
             (Some DELETE))]
   \<and> trace (snd (create (scripted_service []) (Plain (JDict [(''evalscript'', JStr ''x'')]))
        no_create_args (answers [JNone]))) =
       [Request (SentinelHubDownloadClient None)
          (call ''https://services.sentinel-hub.com/api/v1/batch/process''
             (Some (JDict [(''processRequest'', JDict [(''evalscript'', JStr ''x'')])])) None)]
   \<and> \<not> truthy (JStr [])
   \<and> get_process_url (scripted_service []) None (JStr []) =
       ''https://services.sentinel-hub.com/api/v1/batch/process''"
proof -
  note T = url_hierarchy_and_verbs [where E = "scripted_service []" and cfg = None
      and rid = "JStr []" and h = "job ''j1'' JNone" and t = "JInt 7" and w = "answers [JNone]"
      and kvs = "[(''id'', JStr ''c9'')]" and cid = "JStr ''c9''"]
  note U = url_hierarchy_and_verbs [where E = "scripted_service []" and w = "answers [JNone]"
      and kvs = "[(''evalscript'', JStr ''x'')]" and a = no_create_args]
  have i: "truthy (request_id (job ''j1'' JNone))"
    by (simp add: job_def)
  have t: "truthy (JInt 7)" "\<not> truthy (JStr [])"
    by simp_all
  have m: "map_of [(''id'', JStr ''c9'')] ''id'' = Some (JStr ''c9'')"
    by simp
  have e: "trace (answers [JNone]) = []"
    by (simp add: answers_def)
  have u: "job_url (job ''j1'' JNone) = ''https://sh/api/v1/batch/process/j1''"
    "py_str (JInt 7) = ''7''" "py_str (JStr ''c9'') = ''c9''"
    "get_batch_url (scripted_service []) None = ''https://services.sentinel-hub.com/api/v1/batch''"
    "get_batch_url (scripted_service []) (ca_config no_create_args)
       = ''https://services.sentinel-hub.com/api/v1/batch''"
    "ca_config no_create_args = None"
    "remove_undefined (dict_display
        (create_fields (JDict [(''evalscript'', JStr ''x'')]) no_create_args
         @ ca_kwargs no_create_args))
       = [(''processRequest'', JDict [(''evalscript'', JStr ''x'')])]"
    by code_simp+
  from T i have a1:
    "trace (snd (delete (scripted_service []) (job ''j1'' JNone) (answers [JNone]))) =
       trace (answers [JNone])
         @ [Request (client (job ''j1'' JNone)) (call (job_url (job ''j1'' JNone)) None (Some DELETE))]"
    by simp
  from T i have a2:
    "trace (snd (start_job (scripted_service []) (job ''j1'' JNone) (answers [JNone]))) =
       trace (answers [JNone])
         @ [Request (client (job ''j1'' JNone))
              (call (job_url (job ''j1'' JNone) @ ''/start'') None (Some POST))]"
    by simp
  from T i t(1) have a3:
    "trace (snd (get_tile (scripted_service []) (JInt 7) (job ''j1'' JNone) (answers [JNone]))) =
       trace (answers [JNone])
         @ [Request (client (job ''j1'' JNone))
              (call (job_url (job ''j1'' JNone) @ ''/tiles/'' @ py_str (JInt 7)) None None)]"
    by simp
  from T m have a4:
    "trace (snd (delete_collection (scripted_service []) (Given (JDict [(''id'', JStr ''c9'')]))
        None (answers [JNone]))) =
       trace (answers [JNone])
         @ [Request (SentinelHubDownloadClient None)
              (call (get_batch_url (scripted_service []) None @ ''/collections/''
                     @ py_str (JStr ''c9'')) None (Some DELETE))]"
    by simp
  from U have a5:
    "trace (snd (create (scripted_service []) (Plain (JDict [(''evalscript'', JStr ''x'')]))
        no_create_args (answers [JNone]))) =
       trace (answers [JNone])
         @ [Request (SentinelHubDownloadClient (ca_config no_create_args))
              (call (get_batch_url (scripted_service []) (ca_config no_create_args) @ ''/process'')
                 (Some (JDict (remove_undefined (dict_display
                    (create_fields (JDict [(''evalscript'', JStr ''x'')]) no_create_args
                     @ ca_kwargs no_create_args)))))
                 None)]"
    by simp
  from T t(2) have a6:
    "get_process_url (scripted_service []) None (JStr []) =
       get_batch_url (scripted_service []) None @ ''/process''"
    by simp
  from a1 a2 a3 a4 a5 a6 i t m show ?thesis
    unfolding u e by simp
qed

theorem falsy_job_id_counterexample:
  "init (scripted_service []) JNone (JDict [(''id'', JInt 0)]) None =
     Inr (batch_of (scripted_service []) (JInt 0) (JDict [(''id'', JInt 0)]) None)
   \<and> trace (snd (delete (scripted_service [])
        (batch_of (scripted_service []) (JInt 0) (JDict [(''id'', JInt 0)]) None)
        (answers [JNone]))) =
       [Request (SentinelHubDownloadClient
                   (Some \<lparr>sh_base_url = ''https://services.sentinel-hub.com''\<rparr>))
          (call ''https://services.sentinel-hub.com/api/v1/batch/process'' None (Some DELETE))]
   \<and> trace (snd (start_job (scripted_service [])
        (batch_of (scripted_service []) (JInt 0) (JDict [(''id'', JInt 0)]) None)
        (answers [JNone]))) =
       [Request (SentinelHubDownloadClient
                   (Some \<lparr>sh_base_url = ''https://services.sentinel-hub.com''\<rparr>))
          (call ''https://services.sentinel-hub.com/api/v1/batch/process/start'' None (Some POST))]
   \<and> get_process_url (scripted_service []) None (JInt 0) \<noteq>
       get_batch_url (scripted_service []) None @ ''/process/'' @ py_str (JInt 0)"
  by code_simp

subsection \<open>Tile URLs\<close>

text \<open>
  Claim C10, as amended. For a truthy tile identifier \<^verbatim>\<open>get_tile\<close> sends a GET to
  \<^verbatim>\<open>/process/{id}/tiles/{tileId}\<close>; for a falsy one, such as 0, the URL builder leaves
  the tile segment out and the GET goes to \<^verbatim>\<open>/process/{id}/tiles\<close>. \<^verbatim>\<open>reprocess_tile\<close>
  does not use that builder: for every tile identifier, 0 included, it sends a POST to
  \<^verbatim>\<open>/process/{id}/tiles/{tileId}/restart\<close>.
\<close>

theorem tile_urls:
  "(truthy t \<longrightarrow>
      requests_of (trace (snd (get_tile E t h w))) =
        requests_of (trace w)
          @ [(GET, get_process_url E (Some (config h)) (request_id h) @ ''/tiles/'' @ py_str t)])
   \<and> (\<not> truthy t \<longrightarrow>
      requests_of (trace (snd (get_tile E t h w))) =
        requests_of (trace w)
          @ [(GET, get_process_url E (Some (config h)) (request_id h) @ ''/tiles'')])
   \<and> requests_of (trace (snd (get_tile E (JInt 0) h w))) =
        requests_of (trace w)
          @ [(GET, get_process_url E (Some (config h)) (request_id h) @ ''/tiles'')]
   \<and> requests_of (trace (snd (reprocess_tile E t h w))) =
        requests_of (trace w)
          @ [(POST, get_process_url E (Some (config h)) (request_id h)
                    @ ''/tiles/'' @ py_str t @ ''/restart'')]"
  by (simp add: get_tile_sends reprocess_tile_sends tiles_url_shape segment_def)


theorem tile_urls_witness:
  "truthy (JInt 7)
   \<and> requests_of (trace (snd (get_tile (scripted_service []) (JInt 7) (job ''j1'' JNone)
        (answers [JNone])))) =
       [(GET, ''https://sh/api/v1/batch/process/j1/tiles/7'')]
   \<and> \<not> truthy (JInt 0)
   \<and> requests_of (trace (snd (get_tile (scripted_service []) (JInt 0) (job ''j1'' JNone)
        (answers [JNone])))) =
       [(GET, ''https://sh/api/v1/batch/process/j1/tiles'')]
   \<and> requests_of (trace (snd (reprocess_tile (scripted_service []) (JInt 0) (job ''j1'' JNone)
        (answers [JNone])))) =
       [(POST, ''https://sh/api/v1/batch/process/j1/tiles/0/restart'')]"
proof -
  have u: "get_process_url (scripted_service []) (Some (config (job ''j1'' JNone)))
             (request_id (job ''j1'' JNone)) = ''https://sh/api/v1/batch/process/j1''"
    by code_simp
  have s7: "py_str (JInt 7) = ''7''" and s0: "py_str (JInt 0) = ''0''"
    by code_simp+
  have e: "requests_of (trace (answers [JNone])) = []"
    by (simp add: answers_def requests_of_def)
  show ?thesis
    using tile_urls [of "JInt 7" "scripted_service []" "job ''j1'' JNone" "answers [JNone]"]
      tile_urls [of "JInt 0" "scripted_service []" "job ''j1'' JNone" "answers [JNone]"]
    unfolding u s7 s0 e by simp
qed

theorem reprocess_tile_url_counterexample:
  "requests_of (trace (snd (reprocess_tile (scripted_service []) (JInt 5) (job ''j1'' JNone)
        (answers [JNone])))) =
     [(POST, ''https://sh/api/v1/batch/process/j1/tiles/5/restart'')]
   \<and> get_tiles_url (scripted_service []) (job ''j1'' JNone) (JInt 5) =
     ''https://sh/api/v1/batch/process/j1/tiles/5''
   \<and> map snd (requests_of (trace (snd (reprocess_tile (scripted_service []) (JInt 5)
        (job ''j1'' JNone) (answers [JNone]))))) \<noteq>
     [get_tiles_url (scripted_service []) (job ''j1'' JNone) (JInt 5)]
   \<and> requests_of (trace (snd (reprocess_tile (scripted_service []) (JInt 0) (job ''j1'' JNone)
        (answers [JNone])))) =
     [(POST, ''https://sh/api/v1/batch/process/j1/tiles/0/restart'')]
   \<and> get_tiles_url (scripted_service []) (job ''j1'' JNone) JNone =
     ''https://sh/api/v1/batch/process/j1/tiles''"
  by code_simp

subsection \<open>The constructor\<close>

text \<open>
  Claim C2, as amended. The constructor needs at least one of \<^verbatim>\<open>request_id\<close> and
  \<^verbatim>\<open>request_info\<close> to be truthy: with neither it raises the ValueError; a truthy
  \<^verbatim>\<open>request_id\<close> alone gives a handle with no description; a \<^verbatim>\<open>request_info\<close> alone that
  has an \<^verbatim>\<open>id\<close> gives a handle with that identifier; and with both given it succeeds
  too, taking \<^verbatim>\<open>request_id\<close> as the identifier and \<^verbatim>\<open>request_info\<close> as the description.
\<close>

theorem init_needs_one_truthy_argument:
  "(\<not> truthy rid \<and> \<not> truthy rinfo \<longrightarrow>
      init E rid rinfo cfg =
        Inl (ValueError ''One of the parameters request_id and request_info has to be given''))
   \<and> init E JNone JNone cfg =
        Inl (ValueError ''One of the parameters request_id and request_info has to be given'')
   \<and> (truthy rid \<longrightarrow> init E rid JNone cfg = Inr (batch_of E rid JNone cfg))
   \<and> (map_of kvs ''id'' = Some i \<longrightarrow>
        init E JNone (JDict kvs) cfg = Inr (batch_of E i (JDict kvs) cfg))
   \<and> (truthy rid \<longrightarrow> init E rid rinfo cfg = Inr (batch_of E rid rinfo cfg))"
  by (auto simp add: init_def batch_of_def)

theorem init_needs_one_truthy_argument_witness:
  "\<not> truthy JNone \<and> \<not> truthy (JStr [])
   \<and> init (scripted_service []) JNone (JStr []) None =
        Inl (ValueError ''One of the parameters request_id and request_info has to be given'')
   \<and> truthy (JStr ''j1'')
   \<and> init (scripted_service []) (JStr ''j1'') JNone None =
        Inr (batch_of (scripted_service []) (JStr ''j1'') JNone None)
   \<and> map_of [(''id'', JStr ''j2''), (''status'', JStr ''DONE'')] ''id'' = Some (JStr ''j2'')
   \<and> init (scripted_service []) JNone (JDict [(''id'', JStr ''j2''), (''status'', JStr ''DONE'')]) None =
        Inr (batch_of (scripted_service []) (JStr ''j2'')
               (JDict [(''id'', JStr ''j2''), (''status'', JStr ''DONE'')]) None)
   \<and> init (scripted_service []) (JStr ''j1'') (JDict [(''id'', JStr ''j2'')]) None =
        Inr (batch_of (scripted_service []) (JStr ''j1'') (JDict [(''id'', JStr ''j2'')]) None)"
  using init_needs_one_truthy_argument [of JNone "JStr []" "scripted_service []" None
          "[(''id'', JStr ''j2''), (''status'', JStr ''DONE'')]" "JStr ''j2''"]
        init_needs_one_truthy_argument [of "JStr ''j1''" "JDict [(''id'', JStr ''j2'')]"
          "scripted_service []" None "[]" JNone]
        init_needs_one_truthy_argument [of "JStr ''j1''" JNone
          "scripted_service []" None "[]" JNone]
  by simp

theorem init_both_given_counterexample:
  "init (scripted_service []) (JStr ''j1'') (JDict [(''id'', JStr ''j2'')]) None =
     Inr \<lparr>request_id = JStr ''j1'',
          config = \<lparr>sh_base_url = ''https://services.sentinel-hub.com''\<rparr>,
          request_info = JDict [(''id'', JStr ''j2'')],
          client = SentinelHubDownloadClient
                     (Some \<lparr>sh_base_url = ''https://services.sentinel-hub.com''\<rparr>)\<rparr>"
  by (simp add: init_def config_or_default_def scripted_service_def)

subsection \<open>Raising for a status\<close>

lemma info_cached: "request_info h \<noteq> JNone \<Longrightarrow> info E h w = (Inr (request_info h), h, w)"
  by (simp add: info_def)

lemma subscript_Inr_dict: "subscript j k = Inr v \<Longrightarrow> \<exists>kvs. j = JDict kvs \<and> map_of kvs k = Some v"
  by (cases j) (auto split: option.splits)

lemma info_Inr:
  "info E h w = (Inr i, h1, w1) \<Longrightarrow> request_info h1 = i \<and> request_id h1 = request_id h"
  by (auto simp add: info_def update_info_def Let_def split: if_splits prod.splits sum.splits)

text \<open>
  Claim C6. \<^verbatim>\<open>raise_for_status(status)\<close> reads the description (loading it first if the
  handle holds none) and raises a RuntimeError if and only if the description's
  status is one of the given statuses, a single string standing for the set of that
  one status. The message carries the job identifier, the status and, when the
  description has a truthy \<^verbatim>\<open>error\<close> entry, that text. For any other status it returns
  without raising.
\<close>

theorem raise_for_status_iff:
  "info E h w = (Inr i, h1, w1) \<longrightarrow>
     ((\<exists>msg. fst (raise_for_status E status h w) = Inl (RuntimeError msg))
        \<longleftrightarrow> (\<exists>st. subscript i ''status'' = Inr st \<and> st \<in> JStr ` status_set status))
     \<and> (\<forall>st. subscript i ''status'' = Inr st \<longrightarrow>
           raise_for_status E status h w =
             (if st \<in> JStr ` status_set status
              then (Inl (RuntimeError
                      (''Raised for batch request '' @ py_str (request_id h)
                       @ '' with status '' @ py_str st @ error_text i)), h1, w1)
              else (Inr (), h1, w1)))"
proof (intro impI)
  assume c: "info E h w = (Inr i, h1, w1)"
  have eq: "raise_for_status E status h w =
             (if st \<in> JStr ` status_set status
              then (Inl (RuntimeError
                      (''Raised for batch request '' @ py_str (request_id h)
                       @ '' with status '' @ py_str st @ error_text i)), h1, w1)
              else (Inr (), h1, w1))"
    if st: "subscript i ''status'' = Inr st" for st
  proof -
    from st obtain kvs where k: "i = JDict kvs"
      using subscript_Inr_dict by blast
    from c have r: "request_info h1 = i" "request_id h1 = request_id h"
      using info_Inr by blast+
    with k have c2: "info E h1 w1 = (Inr i, h1, w1)"
      by (simp add: info_cached)
    show ?thesis
      using c c2 st k r
      by (cases status)
         (auto simp add: raise_for_status_def py_in_def Let_def error_text_def
            split: option.splits)
  qed
  have other: "\<not> (\<exists>msg. fst (raise_for_status E status h w) = Inl (RuntimeError msg))"
    if "\<not> (\<exists>st. subscript i ''status'' = Inr st)"
  proof -
    from that obtain e where e: "subscript i ''status'' = Inl e"
      by (cases "subscript i ''status''") auto
    then have "e = TypeError \<or> e = KeyError ''status''"
      by (cases i) (auto split: option.splits)
    with e c show ?thesis
      by (auto simp add: raise_for_status_def Let_def)
  qed
  have iff: "(\<exists>msg. fst (raise_for_status E status h w) = Inl (RuntimeError msg))
        \<longleftrightarrow> (\<exists>st. subscript i ''status'' = Inr st \<and> st \<in> JStr ` status_set status)"
  proof
    assume r: "\<exists>msg. fst (raise_for_status E status h w) = Inl (RuntimeError msg)"
    with other obtain st where st: "subscript i ''status'' = Inr st"
      by blast
    with r eq [OF st] have "st \<in> JStr ` status_set status"
      by (auto split: if_splits)
    with st show "\<exists>st. subscript i ''status'' = Inr st \<and> st \<in> JStr ` status_set status"
      by blast
  next
    assume "\<exists>st. subscript i ''status'' = Inr st \<and> st \<in> JStr ` status_set status"
    then obtain st where st: "subscript i ''status'' = Inr st"
      and m: "st \<in> JStr ` status_set status"
      by blast
    from eq [OF st] m show "\<exists>msg. fst (raise_for_status E status h w) = Inl (RuntimeError msg)"
      by simp
  qed
  from iff eq show "((\<exists>msg. fst (raise_for_status E status h w) = Inl (RuntimeError msg))
        \<longleftrightarrow> (\<exists>st. subscript i ''status'' = Inr st \<and> st \<in> JStr ` status_set status))
     \<and> (\<forall>st. subscript i ''status'' = Inr st \<longrightarrow>
           raise_for_status E status h w =
             (if st \<in> JStr ` status_set status
              then (Inl (RuntimeError
                      (''Raised for batch request '' @ py_str (request_id h)
                       @ '' with status '' @ py_str st @ error_text i)), h1, w1)
              else (Inr (), h1, w1)))"
    by blast
qed

theorem raise_for_status_iff_witness:
  "info (scripted_service []) (job ''j1'' failed_job) (answers []) =
     (Inr failed_job, job ''j1'' failed_job, answers [])
   \<and> subscript failed_job ''status'' = Inr (JStr ''FAILED'')
   \<and> raise_for_status (scripted_service []) (OneStatus ''FAILED'') (job ''j1'' failed_job) (answers []) =
       (Inl (RuntimeError (''Raised for batch request j1 with status FAILED and error message: ''
                           @ [CHR 0x22] @ ''out of memory'' @ [CHR 0x22])),
        job ''j1'' failed_job, answers [])
   \<and> raise_for_status (scripted_service []) (Statuses [''CANCELED'', ''DONE'']) (job ''j1'' failed_job) (answers []) =
       (Inr (), job ''j1'' failed_job, answers [])
   \<and> info (scripted_service []) (job ''j1'' JNone) (answers [failed_job]) =
       (Inr failed_job, job ''j1'' failed_job,
        \<lparr>server = [], trace = [Request (client (job ''j1'' JNone))
           \<lparr>url = ''https://sh/api/v1/batch/process/j1'', post_values = None,
            request_type = None, use_session = True\<rparr>]\<rparr>)
   \<and> fst (raise_for_status (scripted_service []) (Statuses [''FAILED'', ''CANCELED''])
            (job ''j1'' JNone) (answers [failed_job])) =
       Inl (RuntimeError (''Raised for batch request j1 with status FAILED and error message: ''
                           @ [CHR 0x22] @ ''out of memory'' @ [CHR 0x22]))"
proof -
  have c: "info (scripted_service []) (job ''j1'' failed_job) (answers []) =
             (Inr failed_job, job ''j1'' failed_job, answers [])"
    by (simp add: info_def job_def failed_job_def)
  have c2: "info (scripted_service []) (job ''j1'' JNone) (answers [failed_job]) =
       (Inr failed_job, job ''j1'' failed_job,
        \<lparr>server = [], trace = [Request (client (job ''j1'' JNone))
           \<lparr>url = ''https://sh/api/v1/batch/process/j1'', post_values = None,
            request_type = None, use_session = True\<rparr>]\<rparr>)"
    by code_simp
  have s: "subscript failed_job ''status'' = Inr (JStr ''FAILED'')"
    by (simp add: failed_job_def)
  have t: "error_text failed_job =
             '' and error message: '' @ [CHR 0x22] @ ''out of memory'' @ [CHR 0x22]"
    by (simp add: failed_job_def error_text_def)
  have i: "request_id (job ''j1'' failed_job) = JStr ''j1''" "request_id (job ''j1'' JNone) = JStr ''j1''"
    by (simp_all add: job_def)
  show ?thesis
    using raise_for_status_iff [of "scripted_service []" "job ''j1'' failed_job" "answers []"
        failed_job "job ''j1'' failed_job" "answers []" "OneStatus ''FAILED''"]
      raise_for_status_iff [of "scripted_service []" "job ''j1'' failed_job" "answers []"
        failed_job "job ''j1'' failed_job" "answers []" "Statuses [''CANCELED'', ''DONE'']"]
      raise_for_status_iff [of "scripted_service []" "job ''j1'' JNone" "answers [failed_job]"
        failed_job "job ''j1'' failed_job" "\<lparr>server = [], trace = [Request (client (job ''j1'' JNone))
           \<lparr>url = ''https://sh/api/v1/batch/process/j1'', post_values = None,
            request_type = None, use_session = True\<rparr>]\<rparr>" "Statuses [''FAILED'', ''CANCELED'']"]
      c c2 s t i
    by simp
qed

subsection \<open>The latest request\<close>

lemma latest_request_iter:
  "iter_requests E JNone JNone (JStr ''created:desc'') cfg [(''count'', JInt 1)] =
     ((latest_request_query E cfg, new_features E (latest_request_query E cfg)), cfg)"
  by (simp add: iter_requests_def latest_request_query_def SentinelHubFeatureIterator_def
      Let_def process_url_shape segment_def remove_undefined_def dict_display_def)

text \<open>
  Claim C7. \<^verbatim>\<open>get_latest_request\<close> builds one feature iterator on the jobs URL with the
  query parameters \<^verbatim>\<open>sort='created:desc'\<close> and \<^verbatim>\<open>count=1\<close>, and takes exactly one
  feature from it. If the feed is empty it raises the ValueError
  \<^verbatim>\<open>No batch request is available\<close>; it never returns an absent value. If the feed
  gives a description, the result is what the constructor makes of it: for a
  description with an \<^verbatim>\<open>id\<close>, the handle of that job. An exception of the iterator
  passes through.
\<close>

theorem get_latest_request_asks_for_one:
  "trace (snd (get_latest_request E cfg w)) = trace w @ [NextFeature (latest_request_query E cfg)]
   \<and> (fst (next_feature E (new_features E (latest_request_query E cfg)) (server w)) = Inr None \<longrightarrow>
        fst (get_latest_request E cfg w) = Inl (ValueError ''No batch request is available''))
   \<and> (\<forall>e. fst (next_feature E (new_features E (latest_request_query E cfg)) (server w)) = Inl e \<longrightarrow>
        fst (get_latest_request E cfg w) = Inl e)
   \<and> (\<forall>rinfo i. fst (next_feature E (new_features E (latest_request_query E cfg)) (server w))
                    = Inr (Some (rinfo, i)) \<longrightarrow>
        fst (get_latest_request E cfg w) = init E JNone rinfo cfg)
   \<and> (\<forall>kvs rid i. fst (next_feature E (new_features E (latest_request_query E cfg)) (server w))
                    = Inr (Some (JDict kvs, i)) \<and> map_of kvs ''id'' = Some rid \<longrightarrow>
        fst (get_latest_request E cfg w) = Inr (batch_of E rid (JDict kvs) cfg))"
proof (cases "next_feature E (new_features E (latest_request_query E cfg)) (server w)")
  case (Pair res s)
  have init_dict: "map_of kvs ''id'' = Some rid \<Longrightarrow>
      init E JNone (JDict kvs) cfg = Inr (batch_of E rid (JDict kvs) cfg)" for kvs rid
    by (auto simp add: init_def batch_of_def)
  show ?thesis
  proof (cases res)
    case (Inl e)
    with Pair show ?thesis
      by (simp add: get_latest_request_def latest_request_iter requests_next_def iter_next_def
          Let_def)
  next
    case (Inr o1)
    show ?thesis
    proof (cases o1)
      case None
      with Pair Inr show ?thesis
        by (simp add: get_latest_request_def latest_request_iter requests_next_def iter_next_def
            Let_def)
    next
      case (Some p)
      obtain rinfo i where p: "p = (rinfo, i)"
        by (cases p)
      show ?thesis
      proof (cases "init E JNone rinfo cfg")
        case (Inl e)
        with Pair Inr Some p init_dict show ?thesis
          by (auto simp add: get_latest_request_def latest_request_iter requests_next_def
              iter_next_def Let_def)
      next
        case (Inr h1)
        with Pair \<open>res = Inr o1\<close> Some p init_dict show ?thesis
          by (auto simp add: get_latest_request_def latest_request_iter requests_next_def
              iter_next_def Let_def)
      qed
    qed
  qed
qed

theorem get_latest_request_asks_for_one_witness:
  "fst (next_feature (scripted_service []) (new_features (scripted_service [])
          (latest_request_query (scripted_service []) None)) (server (answers []))) = Inr None
   \<and> fst (get_latest_request (scripted_service []) None (answers [])) =
       Inl (ValueError ''No batch request is available'')
   \<and> trace (snd (get_latest_request (scripted_service []) None (answers []))) =
       [NextFeature
           \<lparr>it_client = SentinelHubDownloadClient None,
            it_url = ''https://services.sentinel-hub.com/api/v1/batch/process'',
            it_params = [(''sort'', JStr ''created:desc''), (''count'', JInt 1)],
            exception_message = ''No requests found''\<rparr>]
   \<and> fst (next_feature (scripted_service [done_job]) (new_features (scripted_service [done_job])
          (latest_request_query (scripted_service [done_job]) None)) (server (answers []))) =
       Inr (Some (done_job, []))
   \<and> map_of [(''id'', JStr ''j7''), (''status'', JStr ''DONE''), (''tileCount'', JInt 3)] ''id''
       = Some (JStr ''j7'')
   \<and> fst (get_latest_request (scripted_service [done_job]) None (answers [])) =
       Inr (batch_of (scripted_service [done_job]) (JStr ''j7'') done_job None)"
proof -
  note A = get_latest_request_asks_for_one [of "scripted_service []" None "answers []"]
  note B = get_latest_request_asks_for_one [of "scripted_service [done_job]" None "answers []"]
  have n: "fst (next_feature (scripted_service []) (new_features (scripted_service [])
          (latest_request_query (scripted_service []) None)) (server (answers []))) = Inr None"
    by (simp add: scripted_service_def)
  have s: "fst (next_feature (scripted_service [done_job]) (new_features (scripted_service [done_job])
          (latest_request_query (scripted_service [done_job]) None)) (server (answers []))) =
       Inr (Some (done_job, []))"
    by (simp add: scripted_service_def)
  have d: "done_job = JDict [(''id'', JStr ''j7''), (''status'', JStr ''DONE''), (''tileCount'', JInt 3)]"
    by (simp add: done_job_def)
  have m: "map_of [(''id'', JStr ''j7''), (''status'', JStr ''DONE''), (''tileCount'', JInt 3)] ''id''
       = Some (JStr ''j7'')"
    by simp
  have q: "latest_request_query (scripted_service []) None =
           \<lparr>it_client = SentinelHubDownloadClient None,
            it_url = ''https://services.sentinel-hub.com/api/v1/batch/process'',
            it_params = [(''sort'', JStr ''created:desc''), (''count'', JInt 1)],
            exception_message = ''No requests found''\<rparr>"
    by (simp add: latest_request_query_def get_batch_url_def config_or_default_def scripted_service_def)
  from A n have a1: "fst (get_latest_request (scripted_service []) None (answers [])) =
       Inl (ValueError ''No batch request is available'')"
    by blast
  from A have "trace (snd (get_latest_request (scripted_service []) None (answers []))) =
       trace (answers []) @ [NextFeature (latest_request_query (scripted_service []) None)]"
    by blast
  then have a2: "trace (snd (get_latest_request (scripted_service []) None (answers []))) =
       [NextFeature
           \<lparr>it_client = SentinelHubDownloadClient None,
            it_url = ''https://services.sentinel-hub.com/api/v1/batch/process'',
            it_params = [(''sort'', JStr ''created:desc''), (''count'', JInt 1)],
            exception_message = ''No requests found''\<rparr>]"
    by (simp add: q answers_def)
  from B [unfolded d] s [unfolded d] m
  have "fst (get_latest_request
               (scripted_service
                  [JDict [(''id'', JStr ''j7''), (''status'', JStr ''DONE''), (''tileCount'', JInt 3)]])
               None (answers [])) =
       Inr (batch_of
              (scripted_service
                 [JDict [(''id'', JStr ''j7''), (''status'', JStr ''DONE''), (''tileCount'', JInt 3)]])
              (JStr ''j7'')
              (JDict [(''id'', JStr ''j7''), (''status'', JStr ''DONE''), (''tileCount'', JInt 3)]) None)"
    by blast
  then have b: "fst (get_latest_request (scripted_service [done_job]) None (answers [])) =
       Inr (batch_of (scripted_service [done_job]) (JStr ''j7'') done_job None)"
    by (simp add: d)
  from n a1 a2 s m b show ?thesis
    by blast
qed

subsection \<open>The cached description\<close>

lemma update_info_handle:
  "fst (snd (update_info E h w)) = refreshed E (info_request E h) h w"
  by (auto simp add: update_info_def refreshed_def info_request_def client_get_json_def Let_def
      split: prod.splits sum.splits)

lemma update_handle:
  "fst (snd (update E outp d kw h w)) = refreshed E (update_request E outp d kw h) h w"
  by (auto simp add: update_def refreshed_def update_request_def client_get_json_def Let_def
      split: prod.splits sum.splits)

lemma info_handle:
  "fst (snd (info E h w)) =
     (if request_info h = JNone then refreshed E (info_request E h) h w else h)"
  using update_info_handle [of E h w]
  by (auto simp add: info_def split: prod.splits sum.splits)

lemma evalscript_handle: "fst (snd (evalscript E h w)) = fst (snd (info E h w))"
  by (auto simp add: evalscript_def split: prod.splits sum.splits)

lemma parse_bounds_payload_handle:
  "fst (snd (parse_bounds_payload E h w)) = fst (snd (info E h w))"
  by (auto simp add: parse_bounds_payload_def split: prod.splits sum.splits)

lemma bbox_handle: "fst (snd (bbox E h w)) = fst (snd (info E h w))"
  using parse_bounds_payload_handle [of E h w]
  by (auto simp add: bbox_def split: prod.splits sum.splits)

lemma geometry_handle: "fst (snd (geometry E h w)) = fst (snd (info E h w))"
  using parse_bounds_payload_handle [of E h w]
  by (auto simp add: geometry_def split: prod.splits sum.splits)

lemma batch_repr_handle: "fst (snd (batch_repr E h w)) = fst (snd (info E h w))"
  by (auto simp add: batch_repr_def split: prod.splits sum.splits)

lemma raise_for_status_handle:
  "fst (snd (raise_for_status E st h w)) = fst (snd (info E h w))"
proof (cases "info E h w")
  case (fields r h1 w1)
  show ?thesis
  proof (cases r)
    case (Inl e)
    with fields show ?thesis
      by (simp add: raise_for_status_def Let_def)
  next
    case (Inr i)
    show ?thesis
    proof (cases "subscript i ''status''")
      case (Inl e)
      with fields Inr show ?thesis
        by (simp add: raise_for_status_def Let_def)
    next
      case (Inr status1)
      then obtain kvs where k: "i = JDict kvs"
        using subscript_Inr_dict by blast
      from fields \<open>r = Inr i\<close> have "request_info h1 = i"
        using info_Inr by blast
      with k have "info E h1 w1 = (Inr i, h1, w1)"
        by (simp add: info_cached)
      with fields \<open>r = Inr i\<close> Inr k show ?thesis
        by (auto simp add: raise_for_status_def Let_def split: option.splits)
    qed
  qed
qed

text \<open>
  Claim C4. Every operation on a handle either leaves the cached description as it
  was or replaces it, whole, with what the service answered. The action calls
  (\<^verbatim>\<open>start_analysis\<close>, \<^verbatim>\<open>start_job\<close>, \<^verbatim>\<open>cancel_job\<close>, \<^verbatim>\<open>restart_job\<close>, \<^verbatim>\<open>delete\<close>) and the
  tile calls leave the handle unchanged. \<^verbatim>\<open>update_info\<close> and \<^verbatim>\<open>update\<close> replace the
  description by the answer to their request; the accessors do so only on the first
  access, when no description is held. No operation changes a part of the
  description: after \<^verbatim>\<open>update\<close> the description is the service's answer, whatever
  was passed to \<^verbatim>\<open>update\<close>.
\<close>

theorem description_replaced_whole_or_kept:
  "(is_action op \<longrightarrow> fst (snd (run E op h w)) = h)
   \<and> fst (snd (run E OpUpdateInfo h w)) = refreshed E (info_request E h) h w
   \<and> fst (snd (run E (OpUpdate outp d kw) h w)) = refreshed E (update_request E outp d kw h) h w
   \<and> (reads_info op \<longrightarrow>
        fst (snd (run E op h w)) =
          (if request_info h = JNone then refreshed E (info_request E h) h w else h))
   \<and> (fst (snd (run E op h w)) = h
        \<or> fst (snd (run E op h w)) = refreshed E (info_request E h) h w
        \<or> (\<exists>outp d kw. op = OpUpdate outp d kw
              \<and> fst (snd (run E op h w)) = refreshed E (update_request E outp d kw h) h w))
   \<and> (fst (get_json E (client h) (update_request E outp d kw h) (server w)) = Inr j \<longrightarrow>
        request_info (fst (snd (run E (OpUpdate outp d kw) h w))) = j)"
proof -
  have a: "is_action op \<Longrightarrow> fst (snd (run E op h w)) = h"
    by (cases op) (simp_all add: case_prod_unfold)
  have u: "fst (snd (run E OpUpdateInfo h w)) = refreshed E (info_request E h) h w"
    by (simp add: case_prod_unfold update_info_handle)
  have p: "fst (snd (run E (OpUpdate outp d kw) h w)) =
             refreshed E (update_request E outp d kw h) h w" for outp d kw
    by (simp add: case_prod_unfold update_handle)
  have r: "reads_info op \<Longrightarrow> fst (snd (run E op h w)) = fst (snd (info E h w))"
    by (cases op)
       (simp_all add: case_prod_unfold evalscript_handle bbox_handle geometry_handle
          batch_repr_handle raise_for_status_handle)
  have g: "fst (snd (run E op h w)) = h
        \<or> fst (snd (run E op h w)) = refreshed E (info_request E h) h w
        \<or> (\<exists>outp d kw. op = OpUpdate outp d kw
              \<and> fst (snd (run E op h w)) = refreshed E (update_request E outp d kw h) h w)"
  proof (cases "is_action op")
    case True
    with a show ?thesis by simp
  next
    case False
    show ?thesis
    proof (cases "reads_info op")
      case True
      with r info_handle [of E h w] show ?thesis by auto
    next
      case no: False
      with False have "op = OpUpdateInfo \<or> (\<exists>outp d kw. op = OpUpdate outp d kw)"
        by (cases op) auto
      with u p show ?thesis by auto
    qed
  qed
  have j: "fst (get_json E (client h) (update_request E outp d kw h) (server w)) = Inr j \<Longrightarrow>
        request_info (fst (snd (run E (OpUpdate outp d kw) h w))) = j"
    using p [of outp d kw] by (simp only: refreshed_def) simp
  from a u p r g j info_handle [of E h w] show ?thesis
    by simp
qed

theorem description_replaced_whole_or_kept_witness:
  "is_action OpStartJob
   \<and> fst (snd (run (scripted_service []) OpStartJob (job ''j1'' done_job) (answers [failed_job])))
       = job ''j1'' done_job
   \<and> fst (get_json (scripted_service []) (client (job ''j1'' done_job))
            (update_request (scripted_service []) JNone (JStr ''d'') [] (job ''j1'' done_job))
            (server (answers [failed_job]))) = Inr failed_job
   \<and> request_info (fst (snd (run (scripted_service []) (OpUpdate JNone (JStr ''d'') [])
         (job ''j1'' done_job) (answers [failed_job])))) = failed_job
   \<and> reads_info OpEvalscript
   \<and> fst (snd (run (scripted_service []) OpEvalscript (job ''j1'' JNone) (answers [failed_job])))
       = job ''j1'' failed_job
   \<and> fst (snd (run (scripted_service []) OpEvalscript (job ''j1'' done_job) (answers [failed_job])))
       = job ''j1'' done_job"
proof -
  note A = description_replaced_whole_or_kept [of OpStartJob "scripted_service []"
      "job ''j1'' done_job" "answers [failed_job]" JNone "JStr ''d''" "[]" failed_job]
  note B = description_replaced_whole_or_kept [of OpEvalscript "scripted_service []"
      "job ''j1'' JNone" "answers [failed_job]" JNone "JStr ''d''" "[]" failed_job]
  note C = description_replaced_whole_or_kept [of OpEvalscript "scripted_service []"
      "job ''j1'' done_job" "answers [failed_job]" JNone "JStr ''d''" "[]" failed_job]
  have g: "fst (get_json (scripted_service []) (client (job ''j1'' done_job))
            (update_request (scripted_service []) JNone (JStr ''d'') [] (job ''j1'' done_job))
            (server (answers [failed_job]))) = Inr failed_job"
    by (simp add: scripted_service_def answers_def)
  have r: "refreshed (scripted_service []) (info_request (scripted_service []) (job ''j1'' JNone))
             (job ''j1'' JNone) (answers [failed_job]) = job ''j1'' failed_job"
    by (simp add: refreshed_def scripted_service_def answers_def job_def)
  have n: "request_info (job ''j1'' JNone) = JNone" "request_info (job ''j1'' done_job) \<noteq> JNone"
    by (simp_all add: job_def done_job_def)
  from A have a: "fst (snd (run (scripted_service []) OpStartJob (job ''j1'' done_job)
                    (answers [failed_job]))) = job ''j1'' done_job"
    by simp
  from A g have u: "request_info (fst (snd (run (scripted_service []) (OpUpdate JNone (JStr ''d'') [])
         (job ''j1'' done_job) (answers [failed_job])))) = failed_job"
    by blast
  from B n r have b: "fst (snd (run (scripted_service []) OpEvalscript (job ''j1'' JNone)
                    (answers [failed_job]))) = job ''j1'' failed_job"
    by simp
  from C n have c: "fst (snd (run (scripted_service []) OpEvalscript (job ''j1'' done_job)
                    (answers [failed_job]))) = job ''j1'' done_job"
    by simp
  from a g u b c show ?thesis
    by simp
qed

subsection \<open>Payloads\<close>

lemma map_of_dict_set: "map_of (dict_set k v d) = (map_of d)(k \<mapsto> v)"
  by (induction d) (auto simp add: fun_eq_iff)

lemma keys_dict_set: "fst ` set (dict_set k v d) = insert k (fst ` set d)"
  by (induction d) auto

lemma distinct_dict_set: "distinct (map fst d) \<Longrightarrow> distinct (map fst (dict_set k v d))"
  by (induction d) (auto simp add: keys_dict_set)

lemma dict_display_acc:
  "distinct (map fst d) \<Longrightarrow>
     distinct (map fst (foldl (\<lambda>d (k, v). dict_set k v d) d es))
     \<and> map_of (foldl (\<lambda>d (k, v). dict_set k v d) d es) = map_of d ++ map_of (rev es)"
proof (induction es arbitrary: d)
  case Nil
  then show ?case by simp
next
  case (Cons e es)
  obtain k v where e: "e = (k, v)" by (cases e)
  from Cons.prems have "distinct (map fst (dict_set k v d))"
    by (rule distinct_dict_set)
  from Cons.IH [OF this] show ?case
    by (auto simp add: e map_of_dict_set fun_eq_iff map_add_def split: option.splits)
qed

lemma dict_display_lookup:
  "distinct (map fst (dict_display es))" "map_of (dict_display es) = map_of (rev es)"
  using dict_display_acc [of "[]" es] by (simp_all add: dict_display_def)

lemma remove_undefined_lookup:
  "distinct (map fst d) \<Longrightarrow>
     map_of (remove_undefined d) k =
       (case map_of d k of None \<Rightarrow> None | Some v \<Rightarrow> if v = JNone then None else Some v)"
proof (induction d)
  case Nil
  then show ?case by (simp add: remove_undefined_def)
next
  case (Cons p d)
  obtain k1 v1 where p: "p = (k1, v1)" by (cases p)
  from Cons.prems p have n: "map_of d k1 = None"
    by (simp add: map_of_eq_None_iff)
  from Cons show ?case
    using n by (auto simp add: remove_undefined_def p split: option.splits)
qed

lemma payload_lookup:
  "map_of (remove_undefined (dict_display es)) k =
     (case map_of (rev es) k of None \<Rightarrow> None | Some v \<Rightarrow> if v = JNone then None else Some v)"
  by (simp add: remove_undefined_lookup dict_display_lookup)

lemma payload_no_null: "JNone \<notin> snd ` set (remove_undefined d)"
  by (auto simp add: remove_undefined_def)

lemma named_field_lookup:
  assumes "distinct (map fst named)" "(k, v) \<in> set named" "k \<notin> fst ` set kw"
  shows "map_of (remove_undefined (dict_display (named @ kw))) k =
           (if v = JNone then None else Some v)"
proof -
  from assms(3) have "map_of (rev kw) k = None"
    by (simp add: map_of_eq_None_iff)
  moreover from assms(1,2) have "map_of (rev named) k = Some v"
    by (simp add: distinct_rev rev_map [symmetric])
  ultimately show ?thesis
    by (simp add: payload_lookup map_add_def)
qed

lemma kwargs_field_lookup:
  assumes "map_of (rev kw) k = Some v"
  shows "map_of (remove_undefined (dict_display (named @ kw))) k =
           (if v = JNone then None else Some v)"
  using assms by (simp add: payload_lookup map_add_def)

lemma create_trace:
  "trace (snd (create E (Plain (JDict kvs)) a w)) =
     trace w @ [Request (SentinelHubDownloadClient (ca_config a)) (create_request E (JDict kvs) a)]"
  by (auto simp add: create_def create_request_def create_fields_def Let_def
      split: prod.splits sum.splits dest!: client_get_json_trace)

text \<open>
  Claim C5, as amended. In the mapping \<^verbatim>\<open>output\<close> builds and in the body \<^verbatim>\<open>create\<close> sends,
  no key ever has the value \<open>None\<close>. A named parameter left unset does not appear
  under its key, and one that is set, be it to \<open>False\<close> or \<open>0\<close>, appears under its key
  with that value, unless the extra keyword arguments name the same key: the value
  given there takes the parameter's place (and is left out, too, when it is \<open>None\<close>).
\<close>

theorem unset_fields_left_out:
  "JNone \<notin> snd ` set (batch_output a kw)
   \<and> (\<forall>k v. (k, v) \<in> set (output_fields a) \<and> k \<notin> fst ` set kw \<longrightarrow>
         map_of (batch_output a kw) k = (if v = JNone then None else Some v)
         \<and> (k \<in> fst ` set (batch_output a kw) \<longleftrightarrow> v \<noteq> JNone))
   \<and> (\<forall>k v. map_of (rev kw) k = Some v \<longrightarrow>
         map_of (batch_output a kw) k = (if v = JNone then None else Some v))
   \<and> trace (snd (create E (Plain (JDict kvs)) c w)) =
       trace w @ [Request (SentinelHubDownloadClient (ca_config c)) (create_request E (JDict kvs) c)]
   \<and> (\<exists>p. post_values (create_request E req c) = Some (JDict p)
        \<and> JNone \<notin> snd ` set p
        \<and> (\<forall>k v. (k, v) \<in> set (create_fields req c) \<and> k \<notin> fst ` set (ca_kwargs c) \<longrightarrow>
              map_of p k = (if v = JNone then None else Some v)
              \<and> (k \<in> fst ` set p \<longleftrightarrow> v \<noteq> JNone))
        \<and> (\<forall>k v. map_of (rev (ca_kwargs c)) k = Some v \<longrightarrow>
              map_of p k = (if v = JNone then None else Some v)))"
proof -
  have o: "batch_output a kw = remove_undefined (dict_display (output_fields a @ kw))"
    by (simp add: batch_output_def output_fields_def)
  have d1: "distinct (map fst (output_fields a))"
    by (simp add: output_fields_def)
  have d2: "distinct (map fst (create_fields req c))"
    by (simp add: create_fields_def)
  have dom: "(k \<in> fst ` set p) = (map_of p k \<noteq> None)" for k and p :: "(string \<times> json) list"
    by (simp add: map_of_eq_None_iff)
  have out: "map_of (batch_output a kw) k = (if v = JNone then None else Some v)
         \<and> (k \<in> fst ` set (batch_output a kw) \<longleftrightarrow> v \<noteq> JNone)"
    if "(k, v) \<in> set (output_fields a)" "k \<notin> fst ` set kw" for k v
    using named_field_lookup [OF d1 that] by (simp add: o dom)
  have cre: "map_of (remove_undefined (dict_display (create_fields req c @ ca_kwargs c))) k
               = (if v = JNone then None else Some v)
         \<and> (k \<in> fst ` set (remove_undefined (dict_display (create_fields req c @ ca_kwargs c)))
              \<longleftrightarrow> v \<noteq> JNone)"
    if "(k, v) \<in> set (create_fields req c)" "k \<notin> fst ` set (ca_kwargs c)" for k v
    using named_field_lookup [OF d2 that] by (simp add: dom)
  have ex: "\<exists>p. post_values (create_request E req c) = Some (JDict p)
        \<and> JNone \<notin> snd ` set p
        \<and> (\<forall>k v. (k, v) \<in> set (create_fields req c) \<and> k \<notin> fst ` set (ca_kwargs c) \<longrightarrow>
              map_of p k = (if v = JNone then None else Some v)
              \<and> (k \<in> fst ` set p \<longleftrightarrow> v \<noteq> JNone))
        \<and> (\<forall>k v. map_of (rev (ca_kwargs c)) k = Some v \<longrightarrow>
              map_of p k = (if v = JNone then None else Some v))"
    apply (rule exI [of _ "remove_undefined (dict_display (create_fields req c @ ca_kwargs c))"])
    using cre kwargs_field_lookup [of "ca_kwargs c" _ _ "create_fields req c"]
    apply (simp add: create_request_def payload_no_null)
    done
  from out kwargs_field_lookup [of kw _ _ "output_fields a"] ex create_trace [of E kvs c w]
    payload_no_null [of "dict_display (output_fields a @ kw)"]
  show ?thesis
    by (simp add: o)
qed

theorem unset_fields_left_out_witness:
  "(''overwrite'', JBool False)
      \<in> set (output_fields (no_output_args\<lparr>overwrite := JBool False, cog_output := JInt 0\<rparr>))
   \<and> ''overwrite'' \<notin> fst ` set [(''extra'', JStr ''x'')]
   \<and> map_of (batch_output (no_output_args\<lparr>overwrite := JBool False, cog_output := JInt 0\<rparr>)
         [(''extra'', JStr ''x'')]) ''overwrite'' = Some (JBool False)
   \<and> (''cogOutput'', JInt 0)
      \<in> set (output_fields (no_output_args\<lparr>overwrite := JBool False, cog_output := JInt 0\<rparr>))
   \<and> ''cogOutput'' \<notin> fst ` set [(''extra'', JStr ''x'')]
   \<and> map_of (batch_output (no_output_args\<lparr>overwrite := JBool False, cog_output := JInt 0\<rparr>)
         [(''extra'', JStr ''x'')]) ''cogOutput'' = Some (JInt 0)
   \<and> (''responses'', JNone)
      \<in> set (output_fields (no_output_args\<lparr>overwrite := JBool False, cog_output := JInt 0\<rparr>))
   \<and> ''responses'' \<notin> fst ` set [(''extra'', JStr ''x'')]
   \<and> ''responses'' \<notin> fst ` set (batch_output
         (no_output_args\<lparr>overwrite := JBool False, cog_output := JInt 0\<rparr>) [(''extra'', JStr ''x'')])
   \<and> map_of (rev [(''extra'', JStr ''x'')]) ''extra'' = Some (JStr ''x'')
   \<and> map_of (batch_output (no_output_args\<lparr>overwrite := JBool False, cog_output := JInt 0\<rparr>)
         [(''extra'', JStr ''x'')]) ''extra'' = Some (JStr ''x'')"
proof -
  note T = unset_fields_left_out [of "no_output_args\<lparr>overwrite := JBool False, cog_output := JInt 0\<rparr>"
      "[(''extra'', JStr ''x'')]"]
  have m: "(''overwrite'', JBool False)
      \<in> set (output_fields (no_output_args\<lparr>overwrite := JBool False, cog_output := JInt 0\<rparr>))"
    "(''cogOutput'', JInt 0)
      \<in> set (output_fields (no_output_args\<lparr>overwrite := JBool False, cog_output := JInt 0\<rparr>))"
    "(''responses'', JNone)
      \<in> set (output_fields (no_output_args\<lparr>overwrite := JBool False, cog_output := JInt 0\<rparr>))"
    by (simp_all add: output_fields_def no_output_args_def)
  have k: "''overwrite'' \<notin> fst ` set [(''extra'', JStr ''x'')]"
    "''cogOutput'' \<notin> fst ` set [(''extra'', JStr ''x'')]"
    "''responses'' \<notin> fst ` set [(''extra'', JStr ''x'')]"
    "map_of (rev [(''extra'', JStr ''x'')]) ''extra'' = Some (JStr ''x'')"
    by simp_all
  note T2 = T [THEN conjunct2, THEN conjunct1, rule_format]
  note T3 = T [THEN conjunct2, THEN conjunct2, THEN conjunct1, rule_format]
  from T2 [of "''overwrite''" "JBool False"] m(1) k(1)
  have a: "map_of (batch_output (no_output_args\<lparr>overwrite := JBool False, cog_output := JInt 0\<rparr>)
         [(''extra'', JStr ''x'')]) ''overwrite'' = Some (JBool False)"
    by simp
  from T2 [of "''cogOutput''" "JInt 0"] m(2) k(2)
  have b: "map_of (batch_output (no_output_args\<lparr>overwrite := JBool False, cog_output := JInt 0\<rparr>)
         [(''extra'', JStr ''x'')]) ''cogOutput'' = Some (JInt 0)"
    by simp
  from T2 [of "''responses''" JNone] m(3) k(3)
  have c: "''responses'' \<notin> fst ` set (batch_output
         (no_output_args\<lparr>overwrite := JBool False, cog_output := JInt 0\<rparr>) [(''extra'', JStr ''x'')])"
    by simp
  from T3 [of "''extra''" "JStr ''x''"] k(4)
  have d: "map_of (batch_output (no_output_args\<lparr>overwrite := JBool False, cog_output := JInt 0\<rparr>)
         [(''extra'', JStr ''x'')]) ''extra'' = Some (JStr ''x'')"
    by simp
  from m k a b c d show ?thesis
    by (intro conjI)
qed

theorem kwargs_override_counterexample:
  "batch_output (no_output_args\<lparr>skip_existing := JBool False\<rparr>) [(''skipExisting'', JBool True)]
     = [(''skipExisting'', JBool True)]
   \<and> batch_output no_output_args [(''defaultTilePath'', JStr ''tiles'')]
     = [(''defaultTilePath'', JStr ''tiles'')]"
  by (simp add: batch_output_def no_output_args_def remove_undefined_def dict_display_def)

subsection \<open>The monitor\<close>

lemma no_tiles_asked_refl: "no_tiles_asked E h w w"
  by (simp add: no_tiles_asked_def)

lemma no_tiles_asked_append:
  "trace w1 = trace w @ evs \<Longrightarrow> \<not> list_ex (asks_for_tiles E h) evs \<Longrightarrow> no_tiles_asked E h w w1"
  by (simp add: no_tiles_asked_def)

lemma no_tiles_askedD:
  "no_tiles_asked E h w w1 \<Longrightarrow>
     \<exists>evs. trace w1 = trace w @ evs \<and> \<not> list_ex (asks_for_tiles E h) evs"
  unfolding no_tiles_asked_def
  by (metis append_take_drop_id)

lemma no_tiles_asked_trans:
  assumes "no_tiles_asked E h w w1" "no_tiles_asked E h w1 w2"
  shows "no_tiles_asked E h w w2"
proof -
  from assms(1) obtain e1 where e1: "trace w1 = trace w @ e1" "\<not> list_ex (asks_for_tiles E h) e1"
    using no_tiles_askedD by blast
  from assms(2) obtain e2 where e2: "trace w2 = trace w1 @ e2" "\<not> list_ex (asks_for_tiles E h) e2"
    using no_tiles_askedD by blast
  from e1 e2 have "trace w2 = trace w @ (e1 @ e2)" "\<not> list_ex (asks_for_tiles E h) (e1 @ e2)"
    by (auto simp add: list_ex_iff)
  then show ?thesis
    by (rule no_tiles_asked_append)
qed

lemma same_job_tiles_url: "same_job h h1 \<Longrightarrow> get_tiles_url E h1 t = get_tiles_url E h t"
  by (simp add: same_job_def get_tiles_url_def)

lemma same_job_asks: "same_job h h1 \<Longrightarrow> asks_for_tiles E h1 = asks_for_tiles E h"
  by (auto simp add: asks_for_tiles_def fun_eq_iff same_job_tiles_url split: event.splits)

lemma same_job_no_tiles: "same_job h h1 \<Longrightarrow> no_tiles_asked E h1 = no_tiles_asked E h"
  by (simp add: no_tiles_asked_def fun_eq_iff same_job_asks)

lemma same_job_refl: "same_job h h"
  by (simp add: same_job_def)

lemma same_job_trans: "same_job h h1 \<Longrightarrow> same_job h1 h2 \<Longrightarrow> same_job h h2"
  by (simp add: same_job_def)

lemma description_request_quiet: "\<not> asks_for_tiles E h (Request c (info_request E h))"
  by (simp add: asks_for_tiles_def info_request_def get_tiles_url_def Let_def)

lemma update_info_step:
  assumes "update_info E h w = (r, h1, w1)"
  shows "same_job h h1 \<and> no_tiles_asked E h w w1"
proof -
  from assms have "trace w1 = trace w @ [Request (client h) (info_request E h)]" "same_job h h1"
    by (auto simp add: update_info_def info_request_def Let_def same_job_def
        split: prod.splits sum.splits dest!: client_get_json_trace)
  then show ?thesis
    using no_tiles_asked_append [of w1 w "[Request (client h) (info_request E h)]" E h]
    by (simp add: description_request_quiet)
qed

lemma info_step:
  assumes "info E h w = (r, h1, w1)"
  shows "same_job h h1 \<and> no_tiles_asked E h w w1"
proof (cases "request_info h = JNone")
  case True
  obtain r2 h2 w2 where u: "update_info E h w = (r2, h2, w2)"
    by (cases "update_info E h w")
  with True assms have "h1 = h2" "w1 = w2"
    by (auto simp add: info_def split: sum.splits)
  with update_info_step [OF u] show ?thesis
    by simp
next
  case False
  with assms show ?thesis
    by (simp add: info_def same_job_refl no_tiles_asked_refl)
qed

lemma log_step: "no_tiles_asked E h w (emit (LogInfo m args) w)"
  by (rule no_tiles_asked_append [of _ _ "[LogInfo m args]"])
     (simp_all add: emit_def asks_for_tiles_def)

lemma sleep_step: "sleep t w = (r, w1) \<Longrightarrow> no_tiles_asked E h w w1"
  by (auto simp add: sleep_def no_tiles_asked_refl split: if_splits
      intro!: no_tiles_asked_append [of _ _ "[Sleep t]"] simp add: asks_for_tiles_def)

lemma info_status:
  assumes "info E h w = (Inr i, h1, w1)" "subscript i ''status'' = Inr status"
  shows "holds_status h1 status"
  using assms info_Inr [OF assms(1)] by (simp add: holds_status_def)

lemma analysis_loop_result:
  "analysis_loop n E ast status h w = Some (Inr status1, h1, w1) \<Longrightarrow> holds_status h status \<Longrightarrow>
     holds_status h1 status1 \<and> same_job h h1 \<and> no_tiles_asked E h w w1
     \<and> \<not> py_in status1 [''CREATED'', ''ANALYSING'', ''ANALYSIS_DONE'']"
proof (induction n arbitrary: status h w)
  case 0
  then show ?case by simp
next
  case (Suc n)
  show ?case
  proof (cases "py_in status [''CREATED'', ''ANALYSING'', ''ANALYSIS_DONE'']")
    case False
    with Suc.prems show ?thesis
      by (simp add: same_job_refl no_tiles_asked_refl)
  next
    case True
    let ?w0 = "emit (LogInfo ''Batch job has a status %s, sleeping for %d seconds''
                         [status, JInt ast]) w"
    obtain r1 wa where s: "sleep ast ?w0 = (r1, wa)"
      by (cases "sleep ast ?w0")
    obtain r2 h2 w2 where u: "update_info E h wa = (r2, h2, w2)"
      by (cases "update_info E h wa")
    obtain r3 h3 w3 where i: "info E h2 w2 = (r3, h3, w3)"
      by (cases "info E h2 w2")
    from Suc.prems(1) True s u i obtain i3 status2 where
      r: "r3 = Inr i3" "subscript i3 ''status'' = Inr status2"
      and rec: "analysis_loop n E ast status2 h3 w3 = Some (Inr status1, h1, w1)"
      by (auto split: sum.splits)
    from i r have hs: "holds_status h3 status2"
      using info_status by blast
    from Suc.IH [OF rec hs] have
      ih: "holds_status h1 status1" "same_job h3 h1" "no_tiles_asked E h3 w3 w1"
        "\<not> py_in status1 [''CREATED'', ''ANALYSING'', ''ANALYSIS_DONE'']"
      by simp_all
    from update_info_step [OF u] info_step [OF i] have
      sj: "same_job h h2" "same_job h2 h3" and
      q: "no_tiles_asked E h wa w2" "no_tiles_asked E h2 w2 w3"
      by simp_all
    from sj ih(2) have j: "same_job h h1" "same_job h h3"
      using same_job_trans by blast+
    from q(2) sj(1) have q2: "no_tiles_asked E h w2 w3"
      by (simp add: same_job_no_tiles)
    from ih(3) j(2) have q3: "no_tiles_asked E h w3 w1"
      by (simp add: same_job_no_tiles)
    have "no_tiles_asked E h w ?w0"
      by (rule log_step)
    moreover have "no_tiles_asked E h ?w0 wa"
      using s by (rule sleep_step)
    ultimately have "no_tiles_asked E h w w1"
      using q(1) q2 q3 no_tiles_asked_trans by blast
    with ih(1,4) j(1) show ?thesis
      by simp
  qed
qed

lemma analysis_phase_result:
  assumes "analysis_phase n E ast h w = Some (Inr status, h1, w1)"
  shows "holds_status h1 status \<and> same_job h h1 \<and> no_tiles_asked E h w w1
     \<and> \<not> py_in status [''CREATED'', ''ANALYSING'', ''ANALYSIS_DONE'']"
proof -
  obtain r2 h2 w2 where u: "update_info E h w = (r2, h2, w2)"
    by (cases "update_info E h w")
  obtain r3 h3 w3 where i: "info E h2 w2 = (r3, h3, w3)"
    by (cases "info E h2 w2")
  from assms u i obtain i3 status2 where
    r: "r3 = Inr i3" "subscript i3 ''status'' = Inr status2"
    and rec: "analysis_loop n E ast status2 h3 w3 = Some (Inr status, h1, w1)"
    by (auto simp add: analysis_phase_def split: sum.splits)
  from i r have hs: "holds_status h3 status2"
    using info_status by blast
  from analysis_loop_result [OF rec hs] have
    ih: "holds_status h1 status" "same_job h3 h1" "no_tiles_asked E h3 w3 w1"
      "\<not> py_in status [''CREATED'', ''ANALYSING'', ''ANALYSIS_DONE'']"
    by simp_all
  from update_info_step [OF u] info_step [OF i] have
    sj: "same_job h h2" "same_job h2 h3" and
    q: "no_tiles_asked E h w w2" "no_tiles_asked E h2 w2 w3"
    by simp_all
  from sj ih(2) have j: "same_job h h1" "same_job h h3"
    using same_job_trans by blast+
  from q(2) sj(1) have q2: "no_tiles_asked E h w2 w3"
    by (simp add: same_job_no_tiles)
  from ih(3) j(2) have q3: "no_tiles_asked E h w3 w1"
    by (simp add: same_job_no_tiles)
  from q(1) q2 q3 have "no_tiles_asked E h w w1"
    using no_tiles_asked_trans by blast
  with ih(1,4) j(1) show ?thesis
    by simp
qed

lemma raise_for_held_status:
  assumes "holds_status h status"
  shows "raise_for_status E (Statuses xs) h w =
           (if py_in status xs
            then (Inl (RuntimeError
                    (''Raised for batch request '' @ py_str (request_id h)
                     @ '' with status '' @ py_str status @ error_text (request_info h))), h, w)
            else (Inr (), h, w))"
proof -
  from assms obtain kvs where k: "request_info h = JDict kvs"
    unfolding holds_status_def using subscript_Inr_dict by blast
  then have c: "info E h w = (Inr (request_info h), h, w)"
    by (simp add: info_cached)
  from assms k c show ?thesis
    by (auto simp add: raise_for_status_def holds_status_def Let_def error_text_def
        split: option.splits)
qed

text \<open>
  Claim C3. In every run of \<^verbatim>\<open>monitor_batch_job\<close>, if the status read when the first
  loop is left is \<^verbatim>\<open>FAILED\<close> or \<^verbatim>\<open>CANCELED\<close>, the monitor raises a RuntimeError at once:
  handle and service are as the first loop left them, and from the start of the run
  no event asks for tiles.
\<close>

theorem failed_job_raises_before_tiles:
  "analysis_phase n E analysis_sleep_time h w = Some (Inr status, h1, w1)
   \<and> (status = JStr ''FAILED'' \<or> status = JStr ''CANCELED'') \<longrightarrow>
     monitor_batch_job n E h sleep_time analysis_sleep_time w =
       Some (Inl (RuntimeError
                (''Raised for batch request '' @ py_str (request_id h)
                 @ '' with status '' @ py_str status @ error_text (request_info h1))), h1, w1)
     \<and> no_tiles_asked E h w w1"
proof (intro impI, elim conjE)
  assume a: "analysis_phase n E analysis_sleep_time h w = Some (Inr status, h1, w1)"
    and s: "status = JStr ''FAILED'' \<or> status = JStr ''CANCELED''"
  from analysis_phase_result [OF a] have
    r: "holds_status h1 status" "same_job h h1" "no_tiles_asked E h w w1"
    by simp_all
  from s have "py_in status [''FAILED'', ''CANCELED'']"
    by (auto simp add: py_in_def)
  with raise_for_held_status [OF r(1), of E "[''FAILED'', ''CANCELED'']" w1] r(2)
  have "raise_for_status E (Statuses [''FAILED'', ''CANCELED'']) h1 w1 =
          (Inl (RuntimeError
                (''Raised for batch request '' @ py_str (request_id h)
                 @ '' with status '' @ py_str status @ error_text (request_info h1))), h1, w1)"
    by (simp add: same_job_def)
  with a r(3) show "monitor_batch_job n E h sleep_time analysis_sleep_time w =
       Some (Inl (RuntimeError
                (''Raised for batch request '' @ py_str (request_id h)
                 @ '' with status '' @ py_str status @ error_text (request_info h1))), h1, w1)
     \<and> no_tiles_asked E h w w1"
    by (simp add: monitor_batch_job_def)
qed

theorem failed_job_raises_before_tiles_witness:
  "analysis_phase 2 (scripted_service []) 5 (job ''j1'' JNone) (answers [created_job, failed_job]) =
     Some (Inr (JStr ''FAILED''), job ''j1'' failed_job,
           \<lparr>server = [],
            trace = [description_request,
                     LogInfo ''Batch job has a status %s, sleeping for %d seconds''
                       [JStr ''CREATED'', JInt 5],
                     Sleep 5,
                     description_request]\<rparr>)
   \<and> monitor_batch_job 2 (scripted_service []) (job ''j1'' JNone) 120 5
         (answers [created_job, failed_job]) =
       Some (Inl (RuntimeError
                (''Raised for batch request j1 with status FAILED and error message: ''
                           @ [CHR 0x22] @ ''out of memory'' @ [CHR 0x22])),
             job ''j1'' failed_job,
             \<lparr>server = [],
              trace = [description_request,
                     LogInfo ''Batch job has a status %s, sleeping for %d seconds''
                       [JStr ''CREATED'', JInt 5],
                     Sleep 5,
                     description_request]\<rparr>)
   \<and> no_tiles_asked (scripted_service []) (job ''j1'' JNone) (answers [created_job, failed_job])
         \<lparr>server = [],
          trace = [description_request,
                     LogInfo ''Batch job has a status %s, sleeping for %d seconds''
                       [JStr ''CREATED'', JInt 5],
                     Sleep 5,
                     description_request]\<rparr>"
proof -
  let ?w1 = "\<lparr>server = [] :: json list,
            trace = [description_request,
                     LogInfo ''Batch job has a status %s, sleeping for %d seconds''
                       [JStr ''CREATED'', JInt 5],
                     Sleep 5,
                     description_request]\<rparr>"
  have a: "analysis_phase 2 (scripted_service []) 5 (job ''j1'' JNone)
             (answers [created_job, failed_job]) =
           Some (Inr (JStr ''FAILED''), job ''j1'' failed_job, ?w1)"
    by code_simp
  have t: "error_text (request_info (job ''j1'' failed_job)) =
             '' and error message: '' @ [CHR 0x22] @ ''out of memory'' @ [CHR 0x22]"
    by (simp add: job_def failed_job_def error_text_def)
  have i: "request_id (job ''j1'' JNone) = JStr ''j1''"
    by (simp add: job_def)
  from failed_job_raises_before_tiles [of 2 "scripted_service []" 5 "job ''j1'' JNone"
      "answers [created_job, failed_job]" "JStr ''FAILED''" "job ''j1'' failed_job" ?w1 120] a
  have "monitor_batch_job 2 (scripted_service []) (job ''j1'' JNone) 120 5
         (answers [created_job, failed_job]) =
       Some (Inl (RuntimeError
                (''Raised for batch request '' @ py_str (request_id (job ''j1'' JNone))
                 @ '' with status '' @ py_str (JStr ''FAILED'')
                 @ error_text (request_info (job ''j1'' failed_job)))),
             job ''j1'' failed_job, ?w1)
     \<and> no_tiles_asked (scripted_service []) (job ''j1'' JNone)
           (answers [created_job, failed_job]) ?w1"
    by simp
  with a show ?thesis
    unfolding t i by simp
qed

lemma int_less_True: "int_less i c = Inr True \<Longrightarrow> \<exists>t. as_int c = Some t \<and> i < t"
  by (cases c) (auto split: if_splits)

lemma sampling_loop_first:
  "sampling_loop n m E st total_count h f s None w = Some (Inr (Some x), w1) \<Longrightarrow>
     int_less f total_count = Inr True"
  by (cases n) (auto split: sum.splits bool.splits)

lemma sampling_phase_returns:
  assumes "sampling_phase n E st status h w = Some (Inr tps, h1, w1)"
  shows "\<exists>c. subscript (request_info h1) ''tileCount'' = Inr c \<and> int_less 0 c = Inr True"
proof -
  let ?w = "if status = JStr ''PROCESSING'' then emit (LogInfo ''Batch job is running'' []) w else w"
  obtain r2 h2 w2 where i: "info E h ?w = (r2, h2, w2)"
    by (cases "info E h ?w")
  from assms i obtain i2 total_count where r: "r2 = Inr i2" "subscript i2 ''tileCount'' = Inr total_count"
    by (auto simp add: sampling_phase_def Let_def split: sum.splits)
  let ?w3 = "emit (Tqdm ''Success rate'' (BarOpen (JInt 0)))
               (emit (Tqdm ''Progress rate'' (BarOpen total_count)) w2)"
  from assms i r obtain x w4 where
    l: "sampling_loop n n E st total_count h2 0 0 None ?w3 = Some (Inr (Some x), w4)" and h: "h1 = h2"
    by (auto simp add: sampling_phase_def Let_def split: sum.splits option.splits)
  from l have "int_less 0 total_count = Inr True"
    by (rule sampling_loop_first)
  moreover from i r have "request_info h2 = i2"
    using info_Inr by blast
  ultimately show ?thesis
    using r h by auto
qed

lemma tiles_asked_bars:
  "\<not> asks_for_tiles E h (Tqdm d b)" "\<not> asks_for_tiles E h (LogInfo m args)"
  by (simp_all add: asks_for_tiles_def)

text \<open>
  Claim C9. \<^verbatim>\<open>monitor_batch_job\<close> returns normally only when the \<^verbatim>\<open>tileCount\<close> of the
  description counts as at least 1. For a job whose status after the first loop is
  no failure and whose \<^verbatim>\<open>tileCount\<close> is 0, the body of the second loop never runs:
  the monitor opens and closes the two progress bars, asks for no tiles, and raises
  the UnboundLocalError of \<^verbatim>\<open>failed_tiles_num\<close>, read before any assignment.
\<close>

theorem zero_tiles_never_returns:
  "(monitor_batch_job n E h sleep_time analysis_sleep_time w = Some (Inr tps, h2, w2) \<longrightarrow>
      (\<exists>c t. subscript (request_info h2) ''tileCount'' = Inr c \<and> as_int c = Some t \<and> 1 \<le> t))
   \<and> (analysis_phase n E analysis_sleep_time h w = Some (Inr status, h1, w1)
       \<and> status \<noteq> JStr ''FAILED'' \<and> status \<noteq> JStr ''CANCELED''
       \<and> subscript (request_info h1) ''tileCount'' = Inr (JInt 0) \<longrightarrow>
      monitor_batch_job n E h sleep_time analysis_sleep_time w =
        Some (Inl (UnboundLocalError ''failed_tiles_num''), h1,
              \<lparr>server = server w1,
               trace = trace w1
                 @ (if status = JStr ''PROCESSING'' then [LogInfo ''Batch job is running'' []] else [])
                 @ [Tqdm ''Progress rate'' (BarOpen (JInt 0)), Tqdm ''Success rate'' (BarOpen (JInt 0)),
                    Tqdm ''Success rate'' BarClose, Tqdm ''Progress rate'' BarClose]\<rparr>)
      \<and> no_tiles_asked E h w
           \<lparr>server = server w1,
            trace = trace w1
              @ (if status = JStr ''PROCESSING'' then [LogInfo ''Batch job is running'' []] else [])
              @ [Tqdm ''Progress rate'' (BarOpen (JInt 0)), Tqdm ''Success rate'' (BarOpen (JInt 0)),
                 Tqdm ''Success rate'' BarClose, Tqdm ''Progress rate'' BarClose]\<rparr>)"
proof (intro conjI impI)
  assume m: "monitor_batch_job n E h sleep_time analysis_sleep_time w = Some (Inr tps, h2, w2)"
  then obtain status0 ha wa hb wb where
    "sampling_phase n E sleep_time status0 hb wb = Some (Inr tps, h2, w2)"
    by (auto simp add: monitor_batch_job_def split: option.splits sum.splits prod.splits)
  from sampling_phase_returns [OF this] obtain c where
    c: "subscript (request_info h2) ''tileCount'' = Inr c" "int_less 0 c = Inr True"
    by blast
  from int_less_True [OF c(2)] obtain t where "as_int c = Some t" "0 < t"
    by blast
  with c(1) show "\<exists>c t. subscript (request_info h2) ''tileCount'' = Inr c \<and> as_int c = Some t \<and> 1 \<le> t"
    by auto
next
  let ?evs = "(if status = JStr ''PROCESSING'' then [LogInfo ''Batch job is running'' []] else [])
                 @ [Tqdm ''Progress rate'' (BarOpen (JInt 0)), Tqdm ''Success rate'' (BarOpen (JInt 0)),
                    Tqdm ''Success rate'' BarClose, Tqdm ''Progress rate'' BarClose]"
  let ?w2 = "\<lparr>server = server w1, trace = trace w1 @ ?evs\<rparr>"
  assume "analysis_phase n E analysis_sleep_time h w = Some (Inr status, h1, w1)
       \<and> status \<noteq> JStr ''FAILED'' \<and> status \<noteq> JStr ''CANCELED''
       \<and> subscript (request_info h1) ''tileCount'' = Inr (JInt 0)"
  then have a: "analysis_phase n E analysis_sleep_time h w = Some (Inr status, h1, w1)"
    and s: "status \<noteq> JStr ''FAILED''" "status \<noteq> JStr ''CANCELED''"
    and z: "subscript (request_info h1) ''tileCount'' = Inr (JInt 0)"
    by simp_all
  from analysis_phase_result [OF a] have
    r: "holds_status h1 status" "same_job h h1" "no_tiles_asked E h w w1"
    by simp_all
  from s have "\<not> py_in status [''FAILED'', ''CANCELED'']"
    by (auto simp add: py_in_def)
  with raise_for_held_status [OF r(1), of E "[''FAILED'', ''CANCELED'']" w1]
  have rs: "raise_for_status E (Statuses [''FAILED'', ''CANCELED'']) h1 w1 = (Inr (), h1, w1)"
    by simp
  from a obtain k where n: "n = Suc k"
    by (cases n) (auto simp add: analysis_phase_def split: prod.splits sum.splits)
  from z have c: "request_info h1 \<noteq> JNone"
    by auto
  have sp: "sampling_phase n E sleep_time status h1 w1 =
          Some (Inl (UnboundLocalError ''failed_tiles_num''), h1, ?w2)"
    using z c by (simp add: sampling_phase_def info_def n emit_def)
  have "trace ?w2 = trace w1 @ ?evs" "\<not> list_ex (asks_for_tiles E h) ?evs"
    by (simp_all add: tiles_asked_bars)
  then have "no_tiles_asked E h w1 ?w2"
    by (rule no_tiles_asked_append)
  with r(3) have q: "no_tiles_asked E h w ?w2"
    using no_tiles_asked_trans by blast
  from a rs sp show "monitor_batch_job n E h sleep_time analysis_sleep_time w =
        Some (Inl (UnboundLocalError ''failed_tiles_num''), h1, ?w2)"
    by (simp add: monitor_batch_job_def)
  from q show "no_tiles_asked E h w ?w2" .
qed

theorem zero_tiles_never_returns_witness:
  "outcome_and_trace (analysis_phase 1 (scripted_service []) 5 (job ''j1'' JNone) (answers [running_job 0])) =
     Some (Inr (JStr ''PROCESSING''), job ''j1'' (running_job 0), [description_request])
   \<and> JStr ''PROCESSING'' \<noteq> JStr ''FAILED'' \<and> JStr ''PROCESSING'' \<noteq> JStr ''CANCELED''
   \<and> subscript (request_info (job ''j1'' (running_job 0))) ''tileCount'' = Inr (JInt 0)
   \<and> outcome_and_trace (monitor_batch_job 1 (scripted_service []) (job ''j1'' JNone) 120 5
        (answers [running_job 0])) =
       Some (Inl (UnboundLocalError ''failed_tiles_num''), job ''j1'' (running_job 0),
             [description_request, LogInfo ''Batch job is running'' [],
              Tqdm ''Progress rate'' (BarOpen (JInt 0)), Tqdm ''Success rate'' (BarOpen (JInt 0)),
              Tqdm ''Success rate'' BarClose, Tqdm ''Progress rate'' BarClose])
   \<and> (\<exists>w2. monitor_batch_job 2 (scripted_service [tile 1 ''PROCESSED'']) (job ''j1'' JNone) 120 5
          (answers [running_job 1]) =
        Some (Inr [(JStr ''PROCESSED'', [tile 1 ''PROCESSED''])], job ''j1'' (running_job 1), w2))
   \<and> (\<exists>c t. subscript (request_info (job ''j1'' (running_job 1))) ''tileCount'' = Inr c
         \<and> as_int c = Some t \<and> 1 \<le> t)"
proof -
  let ?w1 = "\<lparr>server = [] :: json list, trace = [description_request]\<rparr>"
  have a: "analysis_phase 1 (scripted_service []) 5 (job ''j1'' JNone) (answers [running_job 0]) =
     Some (Inr (JStr ''PROCESSING''), job ''j1'' (running_job 0), ?w1)"
    by code_simp
  have z: "subscript (request_info (job ''j1'' (running_job 0))) ''tileCount'' = Inr (JInt 0)"
    by (simp add: job_def running_job_def)
  have s: "JStr ''PROCESSING'' \<noteq> JStr ''FAILED''" "JStr ''PROCESSING'' \<noteq> JStr ''CANCELED''"
    by simp_all
  note T = zero_tiles_never_returns [of 1 "scripted_service []" "job ''j1'' JNone" 120 5
      "answers [running_job 0]" _ _ _ "JStr ''PROCESSING''" "job ''j1'' (running_job 0)" ?w1]
  from T a z s have m: "monitor_batch_job 1 (scripted_service []) (job ''j1'' JNone) 120 5
        (answers [running_job 0]) =
      Some (Inl (UnboundLocalError ''failed_tiles_num''), job ''j1'' (running_job 0),
            \<lparr>server = [],
             trace = [description_request, LogInfo ''Batch job is running'' [],
              Tqdm ''Progress rate'' (BarOpen (JInt 0)), Tqdm ''Success rate'' (BarOpen (JInt 0)),
              Tqdm ''Success rate'' BarClose, Tqdm ''Progress rate'' BarClose]\<rparr>)"
    by simp
  let ?r = "monitor_batch_job 2 (scripted_service [tile 1 ''PROCESSED'']) (job ''j1'' JNone) 120 5
          (answers [running_job 1])"
  have r: "?r = Some (Inr [(JStr ''PROCESSED'', [tile 1 ''PROCESSED''])], job ''j1'' (running_job 1),
                      snd (snd (the ?r)))"
    by code_simp
  from zero_tiles_never_returns [of 2 "scripted_service [tile 1 ''PROCESSED'']" "job ''j1'' JNone"
      120 5 "answers [running_job 1]" "[(JStr ''PROCESSED'', [tile 1 ''PROCESSED''])]"
      "job ''j1'' (running_job 1)" "snd (snd (the ?r))"] r
  have e: "\<exists>c t. subscript (request_info (job ''j1'' (running_job 1))) ''tileCount'' = Inr c
         \<and> as_int c = Some t \<and> 1 \<le> t"
    by blast
  from r have x: "\<exists>w2. ?r =
        Some (Inr [(JStr ''PROCESSED'', [tile 1 ''PROCESSED''])], job ''j1'' (running_job 1), w2)"
    by blast
  from a m z s e x show ?thesis
    by (simp add: outcome_and_trace_def)
qed

text \<open>
  Whenever the monitor returns a mapping with a tile under \<^verbatim>\<open>FAILED\<close>, its last log
  record is \<^verbatim>\<open>Batch job failed for %d tiles\<close> with the number of tiles under
  \<^verbatim>\<open>PROCESSED\<close>.
\<close>

lemma sampling_loop_counted:
  "sampling_loop n m E st tc h fc sc a w = Some (Inr b, w1) \<Longrightarrow> counted a \<Longrightarrow> counted b"
proof (induction n arbitrary: fc sc a w)
  case 0
  then show ?case by simp
next
  case (Suc n)
  show ?case
  proof (cases "int_less fc tc")
    case (Inl e)
    with Suc.prems show ?thesis by simp
  next
    case (Inr go)
    show ?thesis
    proof (cases go)
      case False
      with Inr Suc.prems show ?thesis by simp
    next
      case True
      obtain r1 wa where g: "get_batch_tiles_per_status m E h w = Some (r1, wa)"
        using Suc.prems(1) Inr True by (auto split: option.splits)
      with Suc.prems(1) Inr True obtain tps where r1: "r1 = Inr tps"
        by (auto split: sum.splits)
      let ?p = "int (length (tps_get tps (JStr ''PROCESSED'') []))"
      let ?f = "int (length (tps_get tps (JStr ''FAILED'') []))"
      from Suc.prems(1) Inr True g r1 obtain w5 where
        rec: "sampling_loop n m E st tc h (?p + ?f) ?p (Some (tps, ?p, ?f)) w5 = Some (Inr b, w1)"
        by (auto simp add: Let_def split: sum.splits prod.splits bool.splits if_splits)
      have "counted (Some (tps, ?p, ?f))"
        by (simp add: counted_def)
      with Suc.IH [OF rec] show ?thesis .
    qed
  qed
qed

lemma monitor_reports_processed_tiles:
  assumes "monitor_batch_job n E h sleep_time analysis_sleep_time w = Some (Inr tps, h1, w1)"
    and "tps_get tps (JStr ''FAILED'') [] \<noteq> []"
  shows "last (trace w1) =
           LogInfo ''Batch job failed for %d tiles''
             [JInt (int (length (tps_get tps (JStr ''PROCESSED'') [])))]"
proof -
  from assms(1) obtain status0 hb wb where
    sp: "sampling_phase n E sleep_time status0 hb wb = Some (Inr tps, h1, w1)"
    by (auto simp add: monitor_batch_job_def split: option.splits sum.splits prod.splits)
  let ?w = "if status0 = JStr ''PROCESSING'' then emit (LogInfo ''Batch job is running'' []) wb else wb"
  obtain r2 h2 w2 where i: "info E hb ?w = (r2, h2, w2)"
    by (cases "info E hb ?w")
  from sp i obtain i2 tc where r: "r2 = Inr i2" "subscript i2 ''tileCount'' = Inr tc"
    by (auto simp add: sampling_phase_def Let_def split: sum.splits)
  let ?w3 = "emit (Tqdm ''Success rate'' (BarOpen (JInt 0)))
               (emit (Tqdm ''Progress rate'' (BarOpen tc)) w2)"
  from sp i r obtain p f w4 where
    l: "sampling_loop n n E sleep_time tc h2 0 0 None ?w3 = Some (Inr (Some (tps, p, f)), w4)"
    and w1: "w1 = (if f \<noteq> 0
                   then emit (LogInfo ''Batch job failed for %d tiles'' [JInt p])
                          (emit (Tqdm ''Progress rate'' BarClose)
                             (emit (Tqdm ''Success rate'' BarClose) w4))
                   else emit (Tqdm ''Progress rate'' BarClose)
                             (emit (Tqdm ''Success rate'' BarClose) w4))"
    by (auto simp add: sampling_phase_def Let_def split: sum.splits option.splits)
  from sampling_loop_counted [OF l] have
    c: "p = int (length (tps_get tps (JStr ''PROCESSED'') []))"
       "f = int (length (tps_get tps (JStr ''FAILED'') []))"
    by (simp_all add: counted_def)
  with assms(2) have "f \<noteq> 0"
    by simp
  with w1 c show ?thesis
    by (simp add: emit_def)
qed

text \<open>
  Claim C1, at a job of three tiles of which two end \<^verbatim>\<open>PROCESSED\<close> and one \<^verbatim>\<open>FAILED\<close>:
  the monitor returns the mapping of the last sample, with one tile under \<^verbatim>\<open>FAILED\<close>,
  and its last log record, \<^verbatim>\<open>Batch job failed for %d tiles\<close>, carries 2, the number of
  processed tiles, where the claim has 1, the number of failed ones.
\<close>

theorem monitor_logs_processed_count:
  "outcome_and_trace (monitor_batch_job 5
       (scripted_service [tile 1 ''PROCESSED'', tile 2 ''FAILED'', tile 3 ''PROCESSED''])
       (job ''j1'' JNone) 120 5 (answers [running_job 3])) =
     Some (Inr [(JStr ''PROCESSED'', [tile 1 ''PROCESSED'', tile 3 ''PROCESSED'']),
                (JStr ''FAILED'', [tile 2 ''FAILED''])],
           job ''j1'' (running_job 3),
           [description_request,
            LogInfo ''Batch job is running'' [],
            Tqdm ''Progress rate'' (BarOpen (JInt 3)),
            Tqdm ''Success rate'' (BarOpen (JInt 0)),
            NextFeature (fst (iter_tiles (scripted_service []) JNone [] (job ''j1'' JNone))),
            NextFeature (fst (iter_tiles (scripted_service []) JNone [] (job ''j1'' JNone))),
            NextFeature (fst (iter_tiles (scripted_service []) JNone [] (job ''j1'' JNone))),
            NextFeature (fst (iter_tiles (scripted_service []) JNone [] (job ''j1'' JNone))),
            Tqdm ''Progress rate'' (BarUpdate 3),
            Tqdm ''Success rate'' (BarSetTotal 3),
            Tqdm ''Success rate'' BarRefresh,
            Tqdm ''Success rate'' (BarUpdate 2),
            Tqdm ''Success rate'' BarClose,
            Tqdm ''Progress rate'' BarClose,
            LogInfo ''Batch job failed for %d tiles'' [JInt 2]])
   \<and> tps_get [(JStr ''PROCESSED'', [tile 1 ''PROCESSED'', tile 3 ''PROCESSED'']),
               (JStr ''FAILED'', [tile 2 ''FAILED''])] (JStr ''FAILED'') []
       = [tile 2 ''FAILED'']"
  by code_simp

end
